theory Spec2Isabelle
  imports Main "HOL-Library.Char_ord" "HOL-Library.List_Lexorder"
begin

section \<open>Data model (db/schema.ts)\<close>

text \<open>
  Each table of the schema is a list of rows, in insertion order. Identity columns
  (\<open>generatedAlwaysAsIdentity\<close>) draw their value from a sequence kept in the database
  state; \<open>defaultNow\<close> columns take the time of the statement, which the environment
  supplies. The tables \<open>object_relations\<close> and \<open>object_types\<close> are declared by the schema
  but no route of the server reads or writes them, so they are left out of the state.
\<close>

record company =
  c_id :: int
  c_name :: string
  c_createdAt :: int

text \<open>
  The \<open>permissions\<close> column is JSON; the server only ever tests a flag with
  \<open>=== true\<close>, so a flag that is missing or not the boolean \<open>true\<close> is \<open>False\<close> here.
\<close>

record permissions =
  p_all :: bool
  p_create :: bool
  p_read :: bool
  p_update :: bool
  p_delete :: bool
  p_manageUsers :: bool

record role =
  r_id :: int
  r_name :: string
  r_permissions :: permissions
  r_createdAt :: int

record user_role =
  ur_userId :: int
  ur_roleId :: int
  ur_createdAt :: int

record user =
  u_id :: int
  u_username :: string
  u_password :: string
  u_companyId :: int
  u_createdAt :: int

record object =
  o_id :: int
  o_name :: string
  o_type :: string
  o_description :: "string option"
  o_fields :: "(string \<times> string) list"
  o_createdBy :: "int option"
  o_companyId :: int
  o_createdAt :: int
  o_updatedAt :: int

record db =
  t_companies :: "company list"
  t_roles :: "role list"
  t_userRoles :: "user_role list"
  t_users :: "user list"
  t_objects :: "object list"
  seq_companies :: int
  seq_roles :: int
  seq_users :: int
  seq_objects :: int

text \<open>What a statement of the store can fail with, and what the crypto helpers throw.\<close>

datatype error =
    NotNullViolation
  | UniqueViolation
  | ForeignKeyViolation
  | InvalidParameter
  | NoValuesToSet
  | TypeError
  | RangeError

text \<open>
  The constraints the schema declares: primary keys and \<open>unique\<close> columns hold distinct
  values, foreign keys point at existing rows, and every identity value handed out so
  far lies below its sequence.
\<close>

definition wf_db :: "db \<Rightarrow> bool" where
  "wf_db s \<longleftrightarrow>
     distinct (map c_id (t_companies s)) \<and>
     distinct (map r_id (t_roles s)) \<and>
     distinct (map r_name (t_roles s)) \<and>
     distinct (map u_id (t_users s)) \<and>
     distinct (map u_username (t_users s)) \<and>
     distinct (map o_id (t_objects s)) \<and>
     distinct (map (\<lambda>ur. (ur_userId ur, ur_roleId ur)) (t_userRoles s)) \<and>
     list_all (\<lambda>c. c_id c < seq_companies s) (t_companies s) \<and>
     list_all (\<lambda>r. r_id r < seq_roles s) (t_roles s) \<and>
     list_all (\<lambda>u. u_id u < seq_users s) (t_users s) \<and>
     list_all (\<lambda>ob. o_id ob < seq_objects s) (t_objects s) \<and>
     list_all (\<lambda>u. u_companyId u \<in> set (map c_id (t_companies s))) (t_users s) \<and>
     list_all (\<lambda>ur. ur_userId ur \<in> set (map u_id (t_users s)) \<and>
                     ur_roleId ur \<in> set (map r_id (t_roles s))) (t_userRoles s) \<and>
     list_all (\<lambda>ob. o_companyId ob \<in> set (map c_id (t_companies s)) \<and>
                     set_option (o_createdBy ob) \<subseteq> set (map u_id (t_users s))) (t_objects s)"

definition empty_db :: db where
  "empty_db = \<lparr>t_companies = [], t_roles = [], t_userRoles = [], t_users = [],
     t_objects = [], seq_companies = 1, seq_roles = 1, seq_users = 1, seq_objects = 1\<rparr>"

section \<open>Statements of the store\<close>

text \<open>
  An insert returns the new row (\<open>.returning()\<close>) and the new state, or the violated
  constraint. A column left out of \<open>values\<close> (JavaScript \<open>undefined\<close>) takes its default;
  a \<open>notNull\<close> column without default then violates its constraint. Identity values
  skipped by a failed statement are not modelled: a failed statement leaves the state
  as it was.
\<close>

definition insert_company :: "int \<Rightarrow> string option \<Rightarrow> db \<Rightarrow> error + (company \<times> db)" where
  "insert_company now name s =
     (case name of
        None \<Rightarrow> Inl NotNullViolation
      | Some n \<Rightarrow>
          let c = \<lparr>c_id = seq_companies s, c_name = n, c_createdAt = now\<rparr>
          in Inr (c, s\<lparr>t_companies := t_companies s @ [c],
                       seq_companies := seq_companies s + 1\<rparr>))"

definition insert_role :: "int \<Rightarrow> string \<Rightarrow> permissions \<Rightarrow> db \<Rightarrow> error + (role \<times> db)" where
  "insert_role now name perms s =
     (if name \<in> set (map r_name (t_roles s)) then Inl UniqueViolation
      else
        let r = \<lparr>r_id = seq_roles s, r_name = name, r_permissions = perms, r_createdAt = now\<rparr>
        in Inr (r, s\<lparr>t_roles := t_roles s @ [r], seq_roles := seq_roles s + 1\<rparr>))"

definition insert_user :: "int \<Rightarrow> string option \<Rightarrow> string \<Rightarrow> int \<Rightarrow> db \<Rightarrow> error + (user \<times> db)" where
  "insert_user now username password companyId s =
     (case username of
        None \<Rightarrow> Inl NotNullViolation
      | Some n \<Rightarrow>
          if n \<in> set (map u_username (t_users s)) then Inl UniqueViolation
          else if companyId \<notin> set (map c_id (t_companies s)) then Inl ForeignKeyViolation
          else
            let u = \<lparr>u_id = seq_users s, u_username = n, u_password = password,
                     u_companyId = companyId, u_createdAt = now\<rparr>
            in Inr (u, s\<lparr>t_users := t_users s @ [u], seq_users := seq_users s + 1\<rparr>))"

definition insert_userRole :: "int \<Rightarrow> int \<Rightarrow> int option \<Rightarrow> db \<Rightarrow> error + db" where
  "insert_userRole now userId roleId s =
     (case roleId of
        None \<Rightarrow> Inl NotNullViolation
      | Some rid \<Rightarrow>
          if (userId, rid) \<in> set (map (\<lambda>ur. (ur_userId ur, ur_roleId ur)) (t_userRoles s))
          then Inl UniqueViolation
          else if userId \<notin> set (map u_id (t_users s)) \<or> rid \<notin> set (map r_id (t_roles s))
          then Inl ForeignKeyViolation
          else Inr (s\<lparr>t_userRoles := t_userRoles s @
                  [\<lparr>ur_userId = userId, ur_roleId = rid, ur_createdAt = now\<rparr>]\<rparr>))"


subsection \<open>Request bodies that name columns of \<open>objects\<close>\<close>

text \<open>
  A key of a JSON body is absent, \<open>null\<close> or holds a value. The bodies of
  \<open>POST /api/objects\<close> and \<open>PUT /api/objects/:id\<close> are handed to the store as they
  arrive (\<open>...req.body\<close>, \<open>.set(req.body)\<close>); the model keeps the keys that name a column
  a client can write, each with a value of the column's type. The keys \<open>id\<close>,
  \<open>createdAt\<close> and \<open>updatedAt\<close> and values of another type are outside the model.
\<close>

datatype 'a field = Absent | Null | Val 'a

record object_body =
  b_name :: "string field"
  b_type :: "string field"
  b_description :: "string field"
  b_fields :: "(string \<times> string) list field"
  b_createdBy :: "int field"
  b_companyId :: "int field"

definition no_body :: object_body where
  "no_body = \<lparr>b_name = Absent, b_type = Absent, b_description = Absent,
     b_fields = Absent, b_createdBy = Absent, b_companyId = Absent\<rparr>"

definition insert_object :: "int \<Rightarrow> object_body \<Rightarrow> db \<Rightarrow> error + (object \<times> db)" where
  "insert_object now v s =
     (case (b_name v, b_type v, b_fields v, b_companyId v) of
        (Val n, Val t, Val f, Val cid) \<Rightarrow>
          if cid \<notin> set (map c_id (t_companies s)) then Inl ForeignKeyViolation
          else if (case b_createdBy v of Val uid \<Rightarrow> uid \<notin> set (map u_id (t_users s))
                   | _ \<Rightarrow> False) then Inl ForeignKeyViolation
          else
            let ob = \<lparr>o_id = seq_objects s, o_name = n, o_type = t,
                      o_description = (case b_description v of Val d \<Rightarrow> Some d | _ \<Rightarrow> None),
                      o_fields = f,
                      o_createdBy = (case b_createdBy v of Val uid \<Rightarrow> Some uid | _ \<Rightarrow> None),
                      o_companyId = cid, o_createdAt = now, o_updatedAt = now\<rparr>
            in Inr (ob, s\<lparr>t_objects := t_objects s @ [ob], seq_objects := seq_objects s + 1\<rparr>)
      | _ \<Rightarrow> Inl NotNullViolation)"

subsection \<open>Conditions\<close>

text \<open>
  The conditions the routes build with \<open>eq\<close>, \<open>and\<close>, \<open>or\<close> and \<open>ilike\<close>. A number handed
  to \<open>eq\<close> comes from \<open>parseInt\<close> and may be \<open>NaN\<close> (\<open>None\<close>). \<open>RawParam\<close> is a plain
  string handed to \<open>where\<close>: the query builder binds it as a parameter of the
  statement instead of reading it as SQL, and the store rejects a text parameter in
  the place of a condition.
\<close>

datatype int_col = Col_id | Col_companyId

datatype text_col = Col_name | Col_type | Col_description

datatype cond =
    EqInt int_col "int option"
  | EqText text_col string
  | Ilike text_col string
  | And cond cond
  | Or cond cond
  | RawParam string

fun int_val :: "int_col \<Rightarrow> object \<Rightarrow> int" where
  "int_val Col_id ob = o_id ob"
| "int_val Col_companyId ob = o_companyId ob"

fun text_val :: "text_col \<Rightarrow> object \<Rightarrow> string option" where
  "text_val Col_name ob = Some (o_name ob)"
| "text_val Col_type ob = Some (o_type ob)"
| "text_val Col_description ob = o_description ob"

definition int4 :: "int \<Rightarrow> bool" where
  "int4 n \<longleftrightarrow> - 2147483648 \<le> n \<and> n \<le> 2147483647"

text \<open>The store accepts a condition when every number in it is a 32-bit integer.\<close>

fun cond_ok :: "cond \<Rightarrow> bool" where
  "cond_ok (EqInt c None) = False"
| "cond_ok (EqInt c (Some n)) = int4 n"
| "cond_ok (EqText c t) = True"
| "cond_ok (Ilike c p) = True"
| "cond_ok (And a b) = (cond_ok a \<and> cond_ok b)"
| "cond_ok (Or a b) = (cond_ok a \<and> cond_ok b)"
| "cond_ok (RawParam t) = False"

text \<open>
  \<open>ILIKE\<close>: \<open>%\<close> stands for any run of characters, \<open>_\<close> for one character, a
  backslash takes the next character literally; letters compare without case
  (ASCII letters here).
\<close>

definition lower_char :: "char \<Rightarrow> char" where
  "lower_char c =
     (case map_of (zip ''ABCDEFGHIJKLMNOPQRSTUVWXYZ'' ''abcdefghijklmnopqrstuvwxyz'') c of
        Some l \<Rightarrow> l
      | None \<Rightarrow> c)"

fun like_match :: "string \<Rightarrow> string \<Rightarrow> bool" where
  "like_match [] s = (s = [])"
| "like_match (p # ps) [] = (p = CHR ''%'' \<and> like_match ps [])"
| "like_match (p # ps) (c # cs) =
     (if p = CHR ''%'' then like_match ps (c # cs) \<or> like_match (p # ps) cs
      else if p = CHR ''_'' then like_match ps cs
      else if p = CHR 0x5C then
        (case ps of [] \<Rightarrow> False | q # qs \<Rightarrow> q = c \<and> like_match qs cs)
      else p = c \<and> like_match ps cs)"

definition ilike :: "string option \<Rightarrow> string \<Rightarrow> bool" where
  "ilike v pat = (case v of None \<Rightarrow> False
                  | Some t \<Rightarrow> like_match (map lower_char pat) (map lower_char t))"

text \<open>A condition that is \<open>NULL\<close> selects no row, as one that is false.\<close>

fun eval_cond :: "cond \<Rightarrow> object \<Rightarrow> bool" where
  "eval_cond (EqInt c n) ob = (n = Some (int_val c ob))"
| "eval_cond (EqText c t) ob = (text_val c ob = Some t)"
| "eval_cond (Ilike c p) ob = ilike (text_val c ob) p"
| "eval_cond (And a b) ob = (eval_cond a ob \<and> eval_cond b ob)"
| "eval_cond (Or a b) ob = (eval_cond a ob \<or> eval_cond b ob)"
| "eval_cond (RawParam t) ob = False"

subsection \<open>The select builder\<close>

text \<open>
  \<open>db.select().from(objects)\<close> yields the select builder of the query library
  (drizzle-orm). The builder holds one condition, one ordering and one limit. Each call
  of \<open>where\<close> assigns its argument to the builder's single condition slot and returns
  the same builder, so a later call replaces the condition of an earlier one instead
  of adding to it; \<open>orderBy\<close> and \<open>limit\<close> do likewise. Awaiting the builder runs the
  statement.
\<close>

datatype sort_col = By_name | By_type | By_createdAt

datatype direction = Asc | Desc

record select_query =
  q_where :: "cond option"
  q_orderBy :: "(direction \<times> sort_col) option"
  q_limit :: "nat option"

definition select_from_objects :: select_query where
  "select_from_objects = \<lparr>q_where = None, q_orderBy = None, q_limit = None\<rparr>"

definition where_q :: "cond \<Rightarrow> select_query \<Rightarrow> select_query" where
  "where_q c q = q\<lparr>q_where := Some c\<rparr>"

definition orderBy :: "direction \<times> sort_col \<Rightarrow> select_query \<Rightarrow> select_query" where
  "orderBy d q = q\<lparr>q_orderBy := Some d\<rparr>"

definition limit :: "nat \<Rightarrow> select_query \<Rightarrow> select_query" where
  "limit n q = q\<lparr>q_limit := Some n\<rparr>"

text \<open>
  Text columns are ordered as byte strings; the order of rows with equal keys, which
  the store leaves open, is the order of insertion.
\<close>

fun ascending :: "sort_col \<Rightarrow> object list \<Rightarrow> object list" where
  "ascending By_name rows = sort_key o_name rows"
| "ascending By_type rows = sort_key o_type rows"
| "ascending By_createdAt rows = sort_key o_createdAt rows"

fun ordered :: "(direction \<times> sort_col) option \<Rightarrow> object list \<Rightarrow> object list" where
  "ordered None rows = rows"
| "ordered (Some (Asc, c)) rows = ascending c rows"
| "ordered (Some (Desc, c)) rows = rev (ascending c rows)"

definition run_select :: "select_query \<Rightarrow> db \<Rightarrow> error + object list" where
  "run_select q s =
     (let matching =
        (case q_where q of
           None \<Rightarrow> Inr (t_objects s)
         | Some c \<Rightarrow> if cond_ok c then Inr (filter (eval_cond c) (t_objects s))
                    else Inl InvalidParameter)
      in case matching of
           Inl e \<Rightarrow> Inl e
         | Inr rows \<Rightarrow>
             let sorted_rows = ordered (q_orderBy q) rows
             in Inr (case q_limit q of None \<Rightarrow> sorted_rows | Some n \<Rightarrow> take n sorted_rows))"

subsection \<open>Update and delete of objects\<close>

text \<open>
  \<open>db.update(objects).set(body).where(c).returning()\<close>: keys that are \<open>undefined\<close> are
  dropped, and the builder throws when no key is left. Every other key is assigned to
  its column in all rows that satisfy the condition; the statement fails, changing
  nothing, when a row would get \<open>NULL\<close> in a \<open>notNull\<close> column or a reference to a row
  that does not exist.
\<close>

definition apply_set :: "object_body \<Rightarrow> object \<Rightarrow> object" where
  "apply_set v ob =
     ob\<lparr>o_name := (case b_name v of Val n \<Rightarrow> n | _ \<Rightarrow> o_name ob),
        o_type := (case b_type v of Val t \<Rightarrow> t | _ \<Rightarrow> o_type ob),
        o_description := (case b_description v of Val d \<Rightarrow> Some d | Null \<Rightarrow> None
                          | Absent \<Rightarrow> o_description ob),
        o_fields := (case b_fields v of Val f \<Rightarrow> f | _ \<Rightarrow> o_fields ob),
        o_createdBy := (case b_createdBy v of Val uid \<Rightarrow> Some uid | Null \<Rightarrow> None
                        | Absent \<Rightarrow> o_createdBy ob),
        o_companyId := (case b_companyId v of Val cid \<Rightarrow> cid | _ \<Rightarrow> o_companyId ob)\<rparr>"

definition update_objects :: "object_body \<Rightarrow> cond \<Rightarrow> db \<Rightarrow> error + (object list \<times> db)" where
  "update_objects v c s =
     (if v = no_body then Inl NoValuesToSet
      else if \<not> cond_ok c then Inl InvalidParameter
      else if filter (eval_cond c) (t_objects s) = [] then Inr ([], s)
      else if b_name v = Null \<or> b_type v = Null \<or> b_fields v = Null \<or> b_companyId v = Null
      then Inl NotNullViolation
      else if (case b_companyId v of Val cid \<Rightarrow> cid \<notin> set (map c_id (t_companies s))
               | _ \<Rightarrow> False) \<or>
              (case b_createdBy v of Val uid \<Rightarrow> uid \<notin> set (map u_id (t_users s))
               | _ \<Rightarrow> False)
      then Inl ForeignKeyViolation
      else Inr (map (apply_set v) (filter (eval_cond c) (t_objects s)),
                s\<lparr>t_objects := map (\<lambda>ob. if eval_cond c ob then apply_set v ob else ob)
                                   (t_objects s)\<rparr>))"

definition delete_objects :: "cond \<Rightarrow> db \<Rightarrow> error + db" where
  "delete_objects c s =
     (if \<not> cond_ok c then Inl InvalidParameter
      else Inr (s\<lparr>t_objects := filter (\<lambda>ob. \<not> eval_cond c ob) (t_objects s)\<rparr>))"

section \<open>JavaScript helpers\<close>

text \<open>
  \<open>parseInt(string)\<close> without radix: leading white space is skipped, a sign is read, a
  prefix \<open>0x\<close> selects base 16, and the longest run of digits is the value; without a
  digit the result is \<open>NaN\<close> (\<open>None\<close>). A value too large for a double is rounded by
  JavaScript; such values lie outside the 32-bit integers on either side of the
  rounding, which is all the store looks at.
\<close>

definition is_ws :: "char \<Rightarrow> bool" where
  "is_ws c \<longleftrightarrow> (of_char c :: nat) \<in> {9, 10, 11, 12, 13, 32}"

definition digit_val :: "nat \<Rightarrow> char \<Rightarrow> nat option" where
  "digit_val radix c =
     (let n = (of_char c :: nat);
          d = (if 48 \<le> n \<and> n \<le> 57 then Some (n - 48)
               else if 97 \<le> n \<and> n \<le> 122 then Some (n - 87)
               else if 65 \<le> n \<and> n \<le> 90 then Some (n - 55)
               else None)
      in case d of None \<Rightarrow> None | Some k \<Rightarrow> if k < radix then Some k else None)"

definition parseInt :: "string \<Rightarrow> int option" where
  "parseInt str =
     (let s0 = dropWhile is_ws str;
          neg = (case s0 of [] \<Rightarrow> False | c # _ \<Rightarrow> c = CHR ''-'');
          s1 = (case s0 of [] \<Rightarrow> []
                | c # t \<Rightarrow> if c = CHR ''-'' \<or> c = CHR ''+'' then t else s0);
          hex = (case s1 of a # b # _ \<Rightarrow> a = CHR ''0'' \<and> (b = CHR ''x'' \<or> b = CHR ''X'')
                 | _ \<Rightarrow> False);
          radix = (if hex then 16 else 10);
          s2 = (if hex then drop 2 s1 else s1);
          z = takeWhile (\<lambda>c. digit_val radix c \<noteq> None) s2;
          mathInt = foldl (\<lambda>a c. a * radix + (case digit_val radix c of Some d \<Rightarrow> d | None \<Rightarrow> 0))
                      0 z
      in if z = [] then None
         else Some (if neg then - int mathInt else int mathInt))"

text \<open>\<open>[...new Set(xs)]\<close>: the first occurrence of each element, in order.\<close>

fun unique :: "'a list \<Rightarrow> 'a list \<Rightarrow> 'a list" where
  "unique seen [] = []"
| "unique seen (x # xs) = (if x \<in> set seen then unique seen xs else x # unique (x # seen) xs)"

text \<open>\<open>str.split(".")\<close>.\<close>

fun split_at :: "char \<Rightarrow> string \<Rightarrow> string \<Rightarrow> string list" where
  "split_at d acc [] = [rev acc]"
| "split_at d acc (c # cs) = (if c = d then rev acc # split_at d [] cs else split_at d (c # acc) cs)"

section \<open>Requests, responses and the environment\<close>

text \<open>
  What a handler takes from outside the program: the clock of the store, the salt
  \<open>randomBytes(16)\<close> returns, and the key derivation \<open>scrypt(password, salt, 64)\<close>,
  whose result is kept in its hexadecimal form.
\<close>

record env =
  clock :: int
  randomBytes :: string
  scryptAsync :: "string \<Rightarrow> string \<Rightarrow> string"

text \<open>
  A user as the server passes it around and serialises it: the row with the roles
  attached (\<open>{ ...user, roles }\<close>). \<open>v_password = None\<close> is an object without the key
  \<open>password\<close>, as \<open>const { password: _, ...user }\<close> leaves it.
\<close>

record user_view =
  v_id :: int
  v_username :: string
  v_password :: "string option"
  v_companyId :: int
  v_createdAt :: int
  v_roles :: "role list"

definition with_roles :: "user \<Rightarrow> role list \<Rightarrow> user_view" where
  "with_roles u rs = \<lparr>v_id = u_id u, v_username = u_username u, v_password = Some (u_password u),
     v_companyId = u_companyId u, v_createdAt = u_createdAt u, v_roles = rs\<rparr>"

definition without_password :: "user_view \<Rightarrow> user_view" where
  "without_password v = v\<lparr>v_password := None\<rparr>"

datatype payload =
    Message string
  | MessageUser string user_view
  | UserBody user_view
  | UsersBody "user_view list"
  | RolesBody "role list"
  | ObjectBody "object option"
  | ObjectsBody "object list"
  | TypesBody "string list"
  | ErrorPage

record response =
  status :: nat
  payload :: payload

definition json :: "nat \<Rightarrow> payload \<Rightarrow> response" where
  "json code b = \<lparr>status = code, payload = b\<rparr>"

text \<open>The methods the routes are registered for.\<close>

datatype http_method = GET | POST | PUT | DELETE

text \<open>
  The \<open>fields\<close> query parameter after \<open>JSON.parse\<close>: missing or empty, not parseable
  (or \<open>null\<close>, whose entries cannot be listed), or the entries of the parsed object.
\<close>

datatype fields_param = FieldsAbsent | FieldsMalformed | FieldsEntries "(string \<times> string) list"

record query =
  qp_search :: "string option"
  qp_type :: "string option"
  qp_sortBy :: "string option"
  qp_sortOrder :: "string option"
  qp_fields :: fields_param

record json_body =
  jb_username :: "string option"
  jb_password :: "string option"
  jb_companyName :: "string option"
  jb_roleId :: "int option"
  jb_object :: object_body

text \<open>
  A request: its HTTP verb, the segments of its path, the user id the session holds
  (if the client has logged in), the parsed body and the query. The router ignores a
  trailing slash and the case of literal segments when it matches a route; a path is
  given here without the trailing slash and with its literal segments in lower case.
\<close>

record request =
  req_method :: http_method
  req_path :: "string list"
  req_session :: "int option"
  req_body :: json_body
  req_query :: query

text \<open>
  A layer of the application either passes the request on (\<open>next()\<close>) or ends it with
  a response, the user id the session holds afterwards, and the new database.
\<close>

datatype outcome = Next | Done response "int option" db

type_synonym handler = "env \<Rightarrow> request \<Rightarrow> user_view option \<Rightarrow> db \<Rightarrow> outcome"

section \<open>server/auth.ts\<close>

definition crypto_hash :: "env \<Rightarrow> string option \<Rightarrow> error + string" where
  "crypto_hash e password =
     (case password of
        None \<Rightarrow> Inl TypeError
      | Some p \<Rightarrow> (let salt = randomBytes e in Inr (scryptAsync e p salt @ ''.'' @ salt)))"

text \<open>\<open>timingSafeEqual\<close> throws when the two buffers differ in length.\<close>

definition crypto_compare :: "env \<Rightarrow> string \<Rightarrow> string \<Rightarrow> error + bool" where
  "crypto_compare e suppliedPassword storedPassword =
     (case split_at CHR ''.'' [] storedPassword of
        hashedPassword # salt # _ \<Rightarrow>
          (let suppliedPasswordBuf = scryptAsync e suppliedPassword salt
           in if length hashedPassword \<noteq> length suppliedPasswordBuf then Inl RangeError
              else Inr (hashedPassword = suppliedPasswordBuf))
      | _ \<Rightarrow> Inl TypeError)"

definition getUserRoles :: "db \<Rightarrow> int \<Rightarrow> role list" where
  "getUserRoles s userId =
     concat (map (\<lambda>ur. filter (\<lambda>r. r_id r = ur_roleId ur) (t_roles s))
                 (filter (\<lambda>ur. ur_userId ur = userId) (t_userRoles s)))"

definition ensureRoleExists :: "int \<Rightarrow> string \<Rightarrow> permissions \<Rightarrow> db \<Rightarrow> error + (role \<times> db)" where
  "ensureRoleExists now name perms s =
     (case find (\<lambda>r. r_name r = name) (t_roles s) of
        None \<Rightarrow> insert_role now name perms s
      | Some existingRole \<Rightarrow> Inr (existingRole, s))"

text \<open>
  \<open>passport.session()\<close> with \<open>deserializeUser\<close>: the user of the session is read from
  the store on every request, with the roles it has at that moment. A session whose
  user is gone counts as no session.
\<close>

definition deserializeUser :: "db \<Rightarrow> int option \<Rightarrow> user_view option" where
  "deserializeUser s sid =
     (case sid of
        None \<Rightarrow> None
      | Some uid \<Rightarrow>
          (case find (\<lambda>u. u_id u = uid) (t_users s) of
             None \<Rightarrow> None
           | Some u \<Rightarrow> Some (with_roles u (getUserRoles s (u_id u)))))"

definition session_of :: "request \<Rightarrow> user_view option \<Rightarrow> int option" where
  "session_of req usr = (case usr of None \<Rightarrow> None | Some _ \<Rightarrow> req_session req)"

definition admin_permissions :: permissions where
  "admin_permissions = \<lparr>p_all = True, p_create = True, p_read = True, p_update = True,
     p_delete = True, p_manageUsers = True\<rparr>"

definition user_permissions :: permissions where
  "user_permissions = \<lparr>p_all = False, p_create = True, p_read = True, p_update = True,
     p_delete = True, p_manageUsers = False\<rparr>"

definition post_auth_register :: handler where
  "post_auth_register e req usr s =
     (let b = req_body req; failed = json 500 (Message ''Error creating user'') in
      case find (\<lambda>u. Some (u_username u) = jb_username b) (t_users s) of
        Some existingUser \<Rightarrow>
          Done (json 400 (Message ''Username already exists'')) (session_of req usr) s
      | None \<Rightarrow>
         (case insert_company (clock e) (jb_companyName b) s of
            Inl _ \<Rightarrow> Done failed (session_of req usr) s
          | Inr (company, s1) \<Rightarrow>
         (case ensureRoleExists (clock e) ''admin'' admin_permissions s1 of
            Inl _ \<Rightarrow> Done failed (session_of req usr) s1
          | Inr (adminRole, s2) \<Rightarrow>
         (case ensureRoleExists (clock e) ''user'' user_permissions s2 of
            Inl _ \<Rightarrow> Done failed (session_of req usr) s2
          | Inr (userRole, s3) \<Rightarrow>
         (case crypto_hash e (jb_password b) of
            Inl _ \<Rightarrow> Done failed (session_of req usr) s3
          | Inr hashedPassword \<Rightarrow>
         (case insert_user (clock e) (jb_username b) hashedPassword (c_id company) s3 of
            Inl _ \<Rightarrow> Done failed (session_of req usr) s3
          | Inr (newUser, s4) \<Rightarrow>
         (let companyUsers = filter (\<lambda>u. u_companyId u = c_id company) (t_users s4);
              roleToAssign = (if length companyUsers = 1 then adminRole else userRole)
          in case insert_userRole (clock e) (u_id newUser) (Some (r_id roleToAssign)) s4 of
               Inl _ \<Rightarrow> Done failed (session_of req usr) s4
             | Inr s5 \<Rightarrow>
                 (let userRolesList = getUserRoles s5 (u_id newUser);
                      userWithRoles = with_roles newUser userRolesList
                  in Done (json 200 (MessageUser ''Registration successful''
                                       (without_password userWithRoles)))
                          (Some (u_id newUser)) s5))))))))"

text \<open>
  The local strategy rejects a request without user name or password before its
  verify callback runs; an exception of the callback reaches the default error
  handler of the framework through \<open>next(err)\<close>.
\<close>

definition post_auth_login :: handler where
  "post_auth_login e req usr s =
     (let b = req_body req in
      case (jb_username b, jb_password b) of
        (Some username, Some password) \<Rightarrow>
          if username = [] \<or> password = []
          then Done (json 401 (Message ''Missing credentials'')) (session_of req usr) s
          else
            (case find (\<lambda>u. u_username u = username) (t_users s) of
               None \<Rightarrow> Done (json 401 (Message ''Invalid username or password''))
                         (session_of req usr) s
             | Some u \<Rightarrow>
                 (case crypto_compare e password (u_password u) of
                    Inl _ \<Rightarrow> Done (json 500 ErrorPage) (session_of req usr) s
                  | Inr isMatch \<Rightarrow>
                      if \<not> isMatch
                      then Done (json 401 (Message ''Invalid username or password''))
                             (session_of req usr) s
                      else Done (json 200 (MessageUser ''Login successful''
                                   (without_password (with_roles u (getUserRoles s (u_id u))))))
                             (Some (u_id u)) s))
      | _ \<Rightarrow> Done (json 401 (Message ''Missing credentials'')) (session_of req usr) s)"

definition post_auth_logout :: handler where
  "post_auth_logout e req usr s = Done (json 200 (Message ''Logged out successfully'')) None s"

definition get_user :: handler where
  "get_user e req usr s =
     (case usr of
        None \<Rightarrow> Done (json 401 (Message ''Not authenticated'')) (session_of req usr) s
      | Some u \<Rightarrow> Done (json 200 (UserBody (without_password u))) (session_of req usr) s)"

text \<open>\<open>req.user?.roles?.some(r => r.name === roleName)\<close>\<close>

definition has_role :: "string \<Rightarrow> user_view option \<Rightarrow> bool" where
  "has_role roleName usr =
     (case usr of None \<Rightarrow> False | Some u \<Rightarrow> list_ex (\<lambda>r. r_name r = roleName) (v_roles u))"

definition get_roles :: handler where
  "get_roles e req usr s =
     (if \<not> has_role ''admin'' usr
      then Done (json 403 (Message ''Forbidden'')) (session_of req usr) s
      else Done (json 200 (RolesBody (t_roles s))) (session_of req usr) s)"

definition assign_role :: "string \<Rightarrow> handler" where
  "assign_role userId e req usr s =
     (let failed = json 500 (Message ''Error assigning role'');
          forbidden = json 403 (Message ''Forbidden'')
      in case parseInt userId of
           None \<Rightarrow> Done failed (session_of req usr) s
         | Some uid \<Rightarrow>
             if \<not> int4 uid then Done failed (session_of req usr) s
             else
               (case find (\<lambda>u. u_id u = uid) (t_users s) of
                  None \<Rightarrow> Done forbidden (session_of req usr) s
                | Some targetUser \<Rightarrow>
                    (case usr of
                       None \<Rightarrow> Done failed (session_of req usr) s
                     | Some caller \<Rightarrow>
                         if u_companyId targetUser \<noteq> v_companyId caller
                         then Done forbidden (session_of req usr) s
                         else
                           (case insert_userRole (clock e) uid (jb_roleId (req_body req)) s of
                              Inl _ \<Rightarrow> Done failed (session_of req usr) s
                            | Inr s' \<Rightarrow> Done (json 200 (Message ''Role assigned successfully''))
                                        (session_of req usr) s'))))"

definition post_user_roles :: "string \<Rightarrow> handler" where
  "post_user_roles userId e req usr s =
     (if \<not> has_role ''admin'' usr
      then Done (json 403 (Message ''Forbidden'')) (session_of req usr) s
      else assign_role userId e req usr s)"

definition list_company_users :: handler where
  "list_company_users e req usr s =
     (case usr of
        None \<Rightarrow> Done (json 500 (Message ''Failed to fetch users'')) (session_of req usr) s
      | Some caller \<Rightarrow>
          (let companyUsers = filter (\<lambda>u. u_companyId u = v_companyId caller) (t_users s);
               usersWithRoles = map (\<lambda>u. with_roles u (getUserRoles s (u_id u))) companyUsers
           in Done (json 200 (UsersBody usersWithRoles)) (session_of req usr) s))"

definition get_users :: handler where
  "get_users e req usr s =
     (if \<not> has_role ''admin'' usr
      then Done (json 403 (Message ''Forbidden'')) (session_of req usr) s
      else list_company_users e req usr s)"

text \<open>The middleware \<open>app.use("/api/*", ...)\<close> that ends \<open>setupAuth\<close>.\<close>

definition auth_middleware :: handler where
  "auth_middleware e req usr s =
     (if usr \<noteq> None then Next
      else Done (json 401 (Message ''Unauthorized'')) (session_of req usr) s)"

definition checkRole :: "string \<Rightarrow> handler \<Rightarrow> handler" where
  "checkRole roleName next_handler e req usr s =
     (if \<not> has_role roleName usr
      then Done (json 403 (Message ''Forbidden'')) (session_of req usr) s
      else next_handler e req usr s)"

section \<open>server/routes.ts\<close>

text \<open>\<open>roles.some(r => r.permissions.F === true || r.permissions.all === true)\<close>\<close>

definition has_permission :: "(permissions \<Rightarrow> bool) \<Rightarrow> user_view \<Rightarrow> bool" where
  "has_permission flag u =
     list_ex (\<lambda>r. flag (r_permissions r) \<or> p_all (r_permissions r)) (v_roles u)"

definition search_cond :: "string \<Rightarrow> cond" where
  "search_cond search =
     Or (Ilike Col_name (''%'' @ search @ ''%''))
        (Or (Ilike Col_type (''%'' @ search @ ''%''))
            (Ilike Col_description (''%'' @ search @ ''%'')))"

definition field_filter :: "string \<Rightarrow> string \<Rightarrow> string" where
  "field_filter key val =
     ''fields->>'' @ [CHR 0x27] @ key @ [CHR 0x27] @ '' ILIKE '' @ [CHR 0x27] @ ''%'' @ val
       @ ''%'' @ [CHR 0x27]"

fun apply_field_filters :: "fields_param \<Rightarrow> select_query \<Rightarrow> error + select_query" where
  "apply_field_filters FieldsAbsent q = Inr q"
| "apply_field_filters FieldsMalformed q = Inl TypeError"
| "apply_field_filters (FieldsEntries entries) q =
     Inr (foldl (\<lambda>q' (key, val). if val \<noteq> [] then where_q (RawParam (field_filter key val)) q'
                                  else q') q entries)"

definition sort_of :: "query \<Rightarrow> direction \<times> sort_col" where
  "sort_of qp =
     (case qp_sortBy qp of
        None \<Rightarrow> (Desc, By_createdAt)
      | Some sortBy \<Rightarrow>
          if sortBy = [] then (Desc, By_createdAt)
          else
            (let orderFunc = (if qp_sortOrder qp = Some ''desc'' then Desc else Asc)
             in if sortBy = ''name'' then (orderFunc, By_name)
                else if sortBy = ''type'' then (orderFunc, By_type)
                else if sortBy = ''createdAt'' then (orderFunc, By_createdAt)
                else (Desc, By_createdAt)))"

definition get_objects :: handler where
  "get_objects e req usr s =
     (case usr of
        None \<Rightarrow> Done (json 401 (Message ''Unauthorized'')) (session_of req usr) s
      | Some u \<Rightarrow>
          (let qp = req_query req;
               failed = json 500 (Message ''Failed to fetch objects'');
               q0 = where_q (EqInt Col_companyId (Some (v_companyId u))) select_from_objects;
               q1 = (case qp_search qp of
                       None \<Rightarrow> q0
                     | Some search \<Rightarrow> if search \<noteq> [] then where_q (search_cond search) q0 else q0);
               q2 = (case qp_type qp of
                       None \<Rightarrow> q1
                     | Some t \<Rightarrow> if t \<noteq> [] \<and> t \<noteq> ''_all'' then where_q (EqText Col_type t) q1
                                else q1)
           in case apply_field_filters (qp_fields qp) q2 of
                Inl _ \<Rightarrow> Done failed (session_of req usr) s
              | Inr q3 \<Rightarrow>
                  (case run_select (orderBy (sort_of qp) q3) s of
                     Inl _ \<Rightarrow> Done failed (session_of req usr) s
                   | Inr result \<Rightarrow> Done (json 200 (ObjectsBody result)) (session_of req usr) s)))"

definition suggestedTypes :: "string list" where
  "suggestedTypes = [''Contact'', ''Lead'', ''Company'', ''Project'', ''Task'']"

definition get_object_types :: handler where
  "get_object_types e req usr s =
     (case usr of
        None \<Rightarrow> Done (json 401 (Message ''Unauthorized'')) (session_of req usr) s
      | Some u \<Rightarrow>
          (let existingTypes =
                 unique [] (map o_type (filter (\<lambda>ob. o_companyId ob = v_companyId u) (t_objects s)));
               allTypes = unique [] (existingTypes @ suggestedTypes)
           in Done (json 200 (TypesBody allTypes)) (session_of req usr) s))"

definition post_objects :: handler where
  "post_objects e req usr s =
     (case usr of
        None \<Rightarrow> Done (json 401 (Message ''Unauthorized'')) (session_of req usr) s
      | Some u \<Rightarrow>
          if \<not> has_permission p_create u
          then Done (json 403 (Message ''Forbidden'')) (session_of req usr) s
          else
            (case insert_object (clock e)
                    ((jb_object (req_body req))\<lparr>b_createdBy := Val (v_id u),
                                                 b_companyId := Val (v_companyId u)\<rparr>) s of
               Inl _ \<Rightarrow> Done (json 500 (Message ''Failed to create object'')) (session_of req usr) s
             | Inr (ob, s') \<Rightarrow> Done (json 200 (ObjectBody (Some ob))) (session_of req usr) s'))"

text \<open>The re-fetch by id and company that precedes an update or a delete.\<close>

definition own_object :: "string \<Rightarrow> user_view \<Rightarrow> select_query" where
  "own_object id_param u =
     limit 1 (where_q (And (EqInt Col_id (parseInt id_param)) (EqInt Col_companyId (Some (v_companyId u))))
                select_from_objects)"

definition put_objects :: "string \<Rightarrow> handler" where
  "put_objects id_param e req usr s =
     (case usr of
        None \<Rightarrow> Done (json 401 (Message ''Unauthorized'')) (session_of req usr) s
      | Some u \<Rightarrow>
          if \<not> has_permission p_update u
          then Done (json 403 (Message ''Forbidden'')) (session_of req usr) s
          else
            (let failed = json 500 (Message ''Failed to update object'')
             in case run_select (own_object id_param u) s of
                  Inl _ \<Rightarrow> Done failed (session_of req usr) s
                | Inr [] \<Rightarrow> Done (json 404 (Message ''Object not found'')) (session_of req usr) s
                | Inr (ob # _) \<Rightarrow>
                    (case update_objects (jb_object (req_body req)) (EqInt Col_id (parseInt id_param)) s of
                       Inl _ \<Rightarrow> Done failed (session_of req usr) s
                     | Inr (updated, s') \<Rightarrow>
                         Done (json 200 (ObjectBody (case updated of [] \<Rightarrow> None
                                                     | updatedObject # _ \<Rightarrow> Some updatedObject)))
                              (session_of req usr) s')))"

definition delete_object :: "string \<Rightarrow> handler" where
  "delete_object id_param e req usr s =
     (case usr of
        None \<Rightarrow> Done (json 401 (Message ''Unauthorized'')) (session_of req usr) s
      | Some u \<Rightarrow>
          if \<not> has_permission p_delete u
          then Done (json 403 (Message ''Forbidden'')) (session_of req usr) s
          else
            (let failed = json 500 (Message ''Failed to delete object'')
             in case run_select (own_object id_param u) s of
                  Inl _ \<Rightarrow> Done failed (session_of req usr) s
                | Inr [] \<Rightarrow> Done (json 404 (Message ''Object not found'')) (session_of req usr) s
                | Inr (ob # _) \<Rightarrow>
                    (case delete_objects (EqInt Col_id (parseInt id_param)) s of
                       Inl _ \<Rightarrow> Done failed (session_of req usr) s
                     | Inr s' \<Rightarrow> Done (json 200 (Message ''Object deleted successfully''))
                                  (session_of req usr) s')))"

section \<open>The application: layers in the order of their registration\<close>

text \<open>
  A path pattern is a list of literal segments and parameters (\<open>:id\<close>); a parameter
  takes one non-empty segment. The handler of a route gets the first parameter.
\<close>

datatype seg = Lit string | Param

fun match_path :: "seg list \<Rightarrow> string list \<Rightarrow> string list option" where
  "match_path [] [] = Some []"
| "match_path (Lit l # ps) (x # xs) = (if l = x then match_path ps xs else None)"
| "match_path (Param # ps) (x # xs) =
     (if x = [] then None else map_option (Cons x) (match_path ps xs))"
| "match_path _ _ = None"

definition route :: "http_method \<Rightarrow> seg list \<Rightarrow> (string \<Rightarrow> handler) \<Rightarrow> handler" where
  "route m pat h e req usr s =
     (if req_method req \<noteq> m then Next
      else case match_path pat (req_path req) of
             None \<Rightarrow> Next
           | Some params \<Rightarrow> h (case params of [] \<Rightarrow> [] | p # _ \<Rightarrow> p) e req usr s)"

text \<open>\<open>app.use("/api/*", h)\<close>: every HTTP verb, every path below \<open>/api/\<close>.\<close>

definition use_api :: "handler \<Rightarrow> handler" where
  "use_api h e req usr s =
     (case req_path req of
        a # b # rest \<Rightarrow> if a = ''api'' then h e req usr s else Next
      | _ \<Rightarrow> Next)"

text \<open>
  The first layer that matches and does not call \<open>next()\<close> ends the request. \<open>Next\<close> as
  the result of the whole list hands the request to what is mounted after the API
  (the static files of the client).
\<close>

fun run_layers :: "handler list \<Rightarrow> handler" where
  "run_layers [] e req usr s = Next"
| "run_layers (l # ls) e req usr s =
     (case l e req usr s of
        Next \<Rightarrow> run_layers ls e req usr s
      | Done r sess s' \<Rightarrow> Done r sess s')"

definition setupAuth :: "handler list" where
  "setupAuth =
     [route POST [Lit ''api'', Lit ''auth'', Lit ''register''] (\<lambda>_. post_auth_register),
      route POST [Lit ''api'', Lit ''auth'', Lit ''login''] (\<lambda>_. post_auth_login),
      route POST [Lit ''api'', Lit ''auth'', Lit ''logout''] (\<lambda>_. post_auth_logout),
      route GET [Lit ''api'', Lit ''user''] (\<lambda>_. get_user),
      route GET [Lit ''api'', Lit ''roles''] (\<lambda>_. get_roles),
      route POST [Lit ''api'', Lit ''users'', Param, Lit ''roles''] post_user_roles,
      route GET [Lit ''api'', Lit ''users''] (\<lambda>_. get_users),
      use_api auth_middleware]"

definition registerRoutes :: "handler list" where
  "registerRoutes =
     setupAuth @
     [route GET [Lit ''api'', Lit ''users''] (\<lambda>_. checkRole ''admin'' list_company_users),
      route GET [Lit ''api'', Lit ''objects''] (\<lambda>_. get_objects),
      route GET [Lit ''api'', Lit ''object-types''] (\<lambda>_. get_object_types),
      route POST [Lit ''api'', Lit ''objects''] (\<lambda>_. post_objects),
      route PUT [Lit ''api'', Lit ''objects'', Param] put_objects,
      route DELETE [Lit ''api'', Lit ''objects'', Param] delete_object,
      route GET [Lit ''api'', Lit ''roles''] (\<lambda>_. get_roles),
      route POST [Lit ''api'', Lit ''users'', Param, Lit ''roles'']
        (\<lambda>userId. checkRole ''admin'' (assign_role userId))]"

definition app :: "env \<Rightarrow> request \<Rightarrow> db \<Rightarrow> outcome" where
  "app e req s = run_layers registerRoutes e req (deserializeUser s (req_session req)) s"

text \<open>The requests that a route registered before the middleware matches.\<close>

definition before_middleware :: "request \<Rightarrow> bool" where
  "before_middleware req \<longleftrightarrow>
     list_ex (\<lambda>(m, pat). req_method req = m \<and> match_path pat (req_path req) \<noteq> None)
       [(POST, [Lit ''api'', Lit ''auth'', Lit ''register'']),
        (POST, [Lit ''api'', Lit ''auth'', Lit ''login'']),
        (POST, [Lit ''api'', Lit ''auth'', Lit ''logout'']),
        (GET, [Lit ''api'', Lit ''user'']),
        (GET, [Lit ''api'', Lit ''roles'']),
        (POST, [Lit ''api'', Lit ''users'', Param, Lit ''roles'']),
        (GET, [Lit ''api'', Lit ''users''])]"

text \<open>Serving a sequence of requests, one after the other, on the same database.\<close>

fun serve :: "env \<Rightarrow> request list \<Rightarrow> db \<Rightarrow> db" where
  "serve e [] s = s"
| "serve e (req # reqs) s =
     serve e reqs (case app e req s of Next \<Rightarrow> s | Done r sess s' \<Rightarrow> s')"

section \<open>The specification's reading of the permission check\<close>

text \<open>
  The effective permission for a flag is the disjunction, over all roles assigned to
  the caller, of the flag and of \<open>all\<close>.
\<close>

definition effective_permission :: "(permissions \<Rightarrow> bool) \<Rightarrow> role list \<Rightarrow> bool" where
  "effective_permission flag assigned \<longleftrightarrow>
     (\<exists>r \<in> set assigned. flag (r_permissions r) \<or> p_all (r_permissions r))"

text \<open>A handler keeps the constraints of the schema.\<close>

definition preserves_wf :: "handler \<Rightarrow> bool" where
  "preserves_wf h \<longleftrightarrow>
     (\<forall>e req usr s r sess s'. wf_db s \<longrightarrow> h e req usr s = Done r sess s' \<longrightarrow> wf_db s')"

text \<open>The status code of the response, if the application answered.\<close>

fun status_of :: "outcome \<Rightarrow> nat option" where
  "status_of Next = None"
| "status_of (Done r sess s) = Some (status r)"

section \<open>Example data\<close>

definition example_env :: env where
  "example_env = \<lparr>clock = 0, randomBytes = ''5a17'',
     scryptAsync = (\<lambda>password salt. password @ salt)\<rparr>"

definition empty_query :: query where
  "empty_query = \<lparr>qp_search = None, qp_type = None, qp_sortBy = None, qp_sortOrder = None,
     qp_fields = FieldsAbsent\<rparr>"

definition empty_body :: json_body where
  "empty_body = \<lparr>jb_username = None, jb_password = None, jb_companyName = None,
     jb_roleId = None, jb_object = no_body\<rparr>"

definition request_of :: "http_method \<Rightarrow> string list \<Rightarrow> int option \<Rightarrow> request" where
  "request_of m path sess = \<lparr>req_method = m, req_path = path, req_session = sess,
     req_body = empty_body, req_query = empty_query\<rparr>"

definition register_request :: "string \<Rightarrow> string \<Rightarrow> string \<Rightarrow> request" where
  "register_request username password companyName =
     (request_of POST [''api'', ''auth'', ''register''] None)
       \<lparr>req_body := empty_body\<lparr>jb_username := Some username, jb_password := Some password,
                                 jb_companyName := Some companyName\<rparr>\<rparr>"

definition create_request :: "int \<Rightarrow> string \<Rightarrow> string \<Rightarrow> request" where
  "create_request sess name type =
     (request_of POST [''api'', ''objects''] (Some sess))
       \<lparr>req_body := empty_body\<lparr>jb_object := no_body\<lparr>b_name := Val name, b_type := Val type,
                                                       b_fields := Val []\<rparr>\<rparr>\<rparr>"

text \<open>
  Two tenants: alice registers company \<open>Acme\<close> (user 1, company 1), bob registers
  company \<open>Beta\<close> (user 2, company 2); alice then creates the object \<open>Acme deal\<close>
  (object 1, company 1).
\<close>

definition two_tenants :: db where
  "two_tenants = serve example_env
     [register_request ''alice'' ''x'' ''Acme'',
      register_request ''bob'' ''y'' ''Beta'',
      create_request 1 ''Acme deal'' ''Lead''] empty_db"

definition update_request :: "int \<Rightarrow> string \<Rightarrow> object_body \<Rightarrow> request" where
  "update_request sess id_param b =
     (request_of PUT [''api'', ''objects'', id_param] (Some sess))
       \<lparr>req_body := empty_body\<lparr>jb_object := b\<rparr>\<rparr>"


definition search_request :: "int \<Rightarrow> string \<Rightarrow> request" where
  "search_request sess search =
     (request_of GET [''api'', ''objects''] (Some sess))
       \<lparr>req_query := empty_query\<lparr>qp_search := Some search, qp_sortBy := Some ''createdAt'',
                                   qp_sortOrder := Some ''desc''\<rparr>\<rparr>"

text \<open>One registration, and two registrations that give the same company name.\<close>

definition acme_db :: db where
  "acme_db = serve example_env [register_request ''alice'' ''x'' ''Acme''] empty_db"

definition same_name_db :: db where
  "same_name_db = serve example_env
     [register_request ''alice'' ''x'' ''Acme'',
      register_request ''bob'' ''y'' ''Acme''] empty_db"

text \<open>
  One company with two users: carol holds a role that grants everything through
  \<open>all\<close> but is not named \<open>admin\<close>; dave holds a role that grants reading only. The
  routes create no such roles; the rows stand for a store that was filled by other
  means, within the constraints of the schema.
\<close>

definition read_only :: permissions where
  "read_only = \<lparr>p_all = False, p_create = False, p_read = True, p_update = False,
     p_delete = False, p_manageUsers = False\<rparr>"

definition staff_db :: db where
  "staff_db = \<lparr>
     t_companies = [\<lparr>c_id = 1, c_name = ''Acme'', c_createdAt = 0\<rparr>],
     t_roles = [\<lparr>r_id = 1, r_name = ''superuser'', r_permissions = admin_permissions,
                 r_createdAt = 0\<rparr>,
                \<lparr>r_id = 2, r_name = ''viewer'', r_permissions = read_only, r_createdAt = 0\<rparr>],
     t_userRoles = [\<lparr>ur_userId = 1, ur_roleId = 1, ur_createdAt = 0\<rparr>,
                    \<lparr>ur_userId = 2, ur_roleId = 2, ur_createdAt = 0\<rparr>],
     t_users = [\<lparr>u_id = 1, u_username = ''carol'', u_password = ''z5a17.5a17'',
                 u_companyId = 1, u_createdAt = 0\<rparr>,
                \<lparr>u_id = 2, u_username = ''dave'', u_password = ''w5a17.5a17'',
                 u_companyId = 1, u_createdAt = 0\<rparr>],
     t_objects = [], seq_companies = 2, seq_roles = 3, seq_users = 3, seq_objects = 1\<rparr>"

text \<open>The passwords a response carries in its body.\<close>

fun passwords_sent :: "outcome \<Rightarrow> string list" where
  "passwords_sent Next = []"
| "passwords_sent (Done r sess s) =
     (case payload r of
        MessageUser m v \<Rightarrow> (case v_password v of None \<Rightarrow> [] | Some p \<Rightarrow> [p])
      | UserBody v \<Rightarrow> (case v_password v of None \<Rightarrow> [] | Some p \<Rightarrow> [p])
      | UsersBody vs \<Rightarrow> concat (map (\<lambda>v. case v_password v of None \<Rightarrow> [] | Some p \<Rightarrow> [p]) vs)
      | _ \<Rightarrow> [])"

section \<open>Which handler serves a request\<close>

text \<open>
  Every handler of a route ends the request, so the first route that matches decides.
  The routes of \<open>setupAuth\<close> stand before the authentication middleware; the routes of
  \<open>registerRoutes\<close> stand behind it, and answer a request without user exactly as the
  middleware does.
\<close>

lemma handlers_answer:
  "post_auth_register e req usr s \<noteq> Next" 
  "post_auth_login e req usr s \<noteq> Next"
  "post_auth_logout e req usr s \<noteq> Next"
  "get_user e req usr s \<noteq> Next"
  "get_roles e req usr s \<noteq> Next"
  "post_user_roles i e req usr s \<noteq> Next"
  "get_users e req usr s \<noteq> Next"
  by (auto simp: post_auth_register_def post_auth_login_def post_auth_logout_def get_user_def get_roles_def post_user_roles_def
     assign_role_def get_users_def list_company_users_def Let_def split: option.splits sum.splits if_splits prod.splits list.splits)

lemma object_handlers_answer:
  "get_objects e req usr s \<noteq> Next"
  "get_object_types e req usr s \<noteq> Next"
  "post_objects e req usr s \<noteq> Next"
  "put_objects i e req usr s \<noteq> Next"
  "delete_object i e req usr s \<noteq> Next"
  by (auto simp: get_objects_def get_object_types_def post_objects_def put_objects_def delete_object_def Let_def split: option.splits sum.splits if_splits prod.splits list.splits)

lemma done_case: "x \<noteq> Next \<Longrightarrow> (case x of Next \<Rightarrow> y | Done r a b \<Rightarrow> Done r a b) = x"
  by (cases x) simp_all

lemma app_register:
  "req_method req = POST \<Longrightarrow> req_path req = [''api'', ''auth'', ''register''] \<Longrightarrow>
   app e req s = post_auth_register e req (deserializeUser s (req_session req)) s"
  by (simp add: app_def registerRoutes_def setupAuth_def route_def done_case handlers_answer)

lemma app_get_roles:
  "req_method req = GET \<Longrightarrow> req_path req = [''api'', ''roles''] \<Longrightarrow>
   app e req s = get_roles e req (deserializeUser s (req_session req)) s"
  by (simp add: app_def registerRoutes_def setupAuth_def route_def done_case handlers_answer)

lemma app_get_users:
  "req_method req = GET \<Longrightarrow> req_path req = [''api'', ''users''] \<Longrightarrow>
   app e req s = get_users e req (deserializeUser s (req_session req)) s"
  by (simp add: app_def registerRoutes_def setupAuth_def route_def done_case handlers_answer)

lemma app_post_user_roles:
  "req_method req = POST \<Longrightarrow> req_path req = [''api'', ''users'', i, ''roles''] \<Longrightarrow> i \<noteq> [] \<Longrightarrow>
   app e req s = post_user_roles i e req (deserializeUser s (req_session req)) s"
  by (simp add: app_def registerRoutes_def setupAuth_def route_def done_case handlers_answer)

lemma unauthorized:
  "get_objects e req None s = Done (json 401 (Message ''Unauthorized'')) None s"
  "get_object_types e req None s = Done (json 401 (Message ''Unauthorized'')) None s"
  "post_objects e req None s = Done (json 401 (Message ''Unauthorized'')) None s"
  "put_objects i e req None s = Done (json 401 (Message ''Unauthorized'')) None s"
  "delete_object i e req None s = Done (json 401 (Message ''Unauthorized'')) None s"
  by (simp_all add: get_objects_def get_object_types_def post_objects_def put_objects_def
        delete_object_def session_of_def)

lemma app_post_objects:
  "req_method req = POST \<Longrightarrow> req_path req = [''api'', ''objects''] \<Longrightarrow>
   app e req s = post_objects e req (deserializeUser s (req_session req)) s"
  by (cases "deserializeUser s (req_session req)")
     (simp_all add: app_def registerRoutes_def setupAuth_def route_def use_api_def auth_middleware_def
       done_case handlers_answer object_handlers_answer unauthorized session_of_def)

lemma app_put_objects:
  "req_method req = PUT \<Longrightarrow> req_path req = [''api'', ''objects'', i] \<Longrightarrow> i \<noteq> [] \<Longrightarrow>
   app e req s = put_objects i e req (deserializeUser s (req_session req)) s"
  by (cases "deserializeUser s (req_session req)")
     (simp_all add: app_def registerRoutes_def setupAuth_def route_def use_api_def auth_middleware_def
       done_case handlers_answer object_handlers_answer unauthorized session_of_def)

lemma app_delete_object:
  "req_method req = DELETE \<Longrightarrow> req_path req = [''api'', ''objects'', i] \<Longrightarrow> i \<noteq> [] \<Longrightarrow>
   app e req s = delete_object i e req (deserializeUser s (req_session req)) s"
  by (cases "deserializeUser s (req_session req)")
     (simp_all add: app_def registerRoutes_def setupAuth_def route_def use_api_def auth_middleware_def
       done_case handlers_answer object_handlers_answer unauthorized session_of_def)

lemma app_get_objects:
  "req_method req = GET \<Longrightarrow> req_path req = [''api'', ''objects''] \<Longrightarrow>
   app e req s = get_objects e req (deserializeUser s (req_session req)) s"
  by (cases "deserializeUser s (req_session req)")
     (simp_all add: app_def registerRoutes_def setupAuth_def route_def use_api_def auth_middleware_def
       done_case handlers_answer object_handlers_answer unauthorized session_of_def)


section \<open>The constraints of the schema are kept\<close>

text \<open>
  Every statement of the store that succeeds leaves the constraints in force, so every
  handler does, and so does the application: the databases it reaches from the empty
  one all satisfy \<open>wf_db\<close>.
\<close>

lemma wf_db_iff:
  "wf_db s \<longleftrightarrow>
     distinct (map c_id (t_companies s)) \<and>
     distinct (map r_id (t_roles s)) \<and>
     distinct (map r_name (t_roles s)) \<and>
     distinct (map u_id (t_users s)) \<and>
     distinct (map u_username (t_users s)) \<and>
     distinct (map o_id (t_objects s)) \<and>
     distinct (map (\<lambda>ur. (ur_userId ur, ur_roleId ur)) (t_userRoles s)) \<and>
     (\<forall>c \<in> set (t_companies s). c_id c < seq_companies s) \<and>
     (\<forall>r \<in> set (t_roles s). r_id r < seq_roles s) \<and>
     (\<forall>u \<in> set (t_users s). u_id u < seq_users s) \<and>
     (\<forall>ob \<in> set (t_objects s). o_id ob < seq_objects s) \<and>
     (\<forall>u \<in> set (t_users s). u_companyId u \<in> c_id ` set (t_companies s)) \<and>
     (\<forall>ur \<in> set (t_userRoles s). ur_userId ur \<in> u_id ` set (t_users s) \<and>
                     ur_roleId ur \<in> r_id ` set (t_roles s)) \<and>
     (\<forall>ob \<in> set (t_objects s). o_companyId ob \<in> c_id ` set (t_companies s) \<and>
                     set_option (o_createdBy ob) \<subseteq> u_id ` set (t_users s))"
  by (simp add: wf_db_def list_all_iff)

lemma wf_insert_company:
  "wf_db s \<Longrightarrow> insert_company now name s = Inr (c, s') \<Longrightarrow> wf_db s'"
  by (cases name; clarsimp simp: insert_company_def wf_db_iff Let_def; intro conjI; force)

lemma wf_insert_role:
  "wf_db s \<Longrightarrow> insert_role now name perms s = Inr (r, s') \<Longrightarrow> wf_db s'"
  by (clarsimp simp: insert_role_def wf_db_iff Let_def split: if_splits; intro conjI; force)

lemma wf_ensureRoleExists:
  "wf_db s \<Longrightarrow> ensureRoleExists now name perms s = Inr (r, s') \<Longrightarrow> wf_db s'"
  by (auto simp: ensureRoleExists_def split: option.splits dest: wf_insert_role)

lemma wf_insert_user:
  "wf_db s \<Longrightarrow> insert_user now name pw cid s = Inr (u, s') \<Longrightarrow> wf_db s'"
  by (cases name; clarsimp simp: insert_user_def wf_db_iff Let_def split: if_splits; intro conjI; force)

lemma wf_insert_userRole:
  "wf_db s \<Longrightarrow> insert_userRole now uid rid s = Inr s' \<Longrightarrow> wf_db s'"
  by (cases rid; clarsimp simp: insert_userRole_def wf_db_iff split: if_splits)

lemma wf_delete_objects:
  "wf_db s \<Longrightarrow> delete_objects c s = Inr s' \<Longrightarrow> wf_db s'"
  by (clarsimp simp: delete_objects_def wf_db_iff distinct_map_filter split: if_splits)


lemma wf_insert_object:
  "wf_db s \<Longrightarrow> insert_object now v s = Inr (ob, s') \<Longrightarrow> wf_db s'"
  by (clarsimp simp: insert_object_def wf_db_iff Let_def split: if_splits field.splits;
      intro conjI; force)

lemma apply_set_id: "o_id (apply_set v ob) = o_id ob"
  by (simp add: apply_set_def)

lemma comp_id_update:
  "o_id \<circ> (\<lambda>ob. if P ob then apply_set v ob else ob) = o_id"
  by (auto simp: fun_eq_iff apply_set_id)

lemma wf_update_objects:
  assumes "wf_db s" and "update_objects v c s = Inr (rows, s')"
  shows "wf_db s'"
proof (cases "s' = s")
  case True
  with assms(1) show ?thesis by simp
next
  case False
  with assms(2) have s': "s' = s\<lparr>t_objects := map (\<lambda>ob. if eval_cond c ob then apply_set v ob else ob)
                                   (t_objects s)\<rparr>"
    and nn: "b_companyId v \<noteq> Null"
    and fkc: "\<forall>cid. b_companyId v = Val cid \<longrightarrow> cid \<in> c_id ` set (t_companies s)"
    and fku: "\<forall>uid. b_createdBy v = Val uid \<longrightarrow> uid \<in> u_id ` set (t_users s)"
    by (auto simp: update_objects_def split: if_splits field.splits)
  have comp: "o_companyId (apply_set v ob) \<in> c_id ` set (t_companies s)"
    if "o_companyId ob \<in> c_id ` set (t_companies s)" for ob
    using that nn fkc by (cases "b_companyId v") (simp_all add: apply_set_def)
  have crea: "set_option (o_createdBy (apply_set v ob)) \<subseteq> u_id ` set (t_users s)"
    if "set_option (o_createdBy ob) \<subseteq> u_id ` set (t_users s)" for ob
    using that fku by (cases "b_createdBy v") (simp_all add: apply_set_def)
  have objs: "o_id ob < seq_objects s \<and> o_companyId ob \<in> c_id ` set (t_companies s) \<and>
      set_option (o_createdBy ob) \<subseteq> u_id ` set (t_users s)"
    if "ob \<in> set (t_objects s')" for ob
  proof -
    from that obtain ob0 where ob0: "ob0 \<in> set (t_objects s)"
      and eq: "ob = ob0 \<or> ob = apply_set v ob0"
      by (auto simp: s')
    from assms(1) ob0 have "o_id ob0 < seq_objects s"
      and "o_companyId ob0 \<in> c_id ` set (t_companies s)"
      and "set_option (o_createdBy ob0) \<subseteq> u_id ` set (t_users s)"
      by (simp_all add: wf_db_iff)
    with eq show ?thesis
      by (elim disjE) (simp_all add: apply_set_id comp crea)
  qed
  have same: "t_companies s' = t_companies s" "t_roles s' = t_roles s" "t_users s' = t_users s"
    "t_userRoles s' = t_userRoles s" "seq_companies s' = seq_companies s"
    "seq_roles s' = seq_roles s" "seq_users s' = seq_users s" "seq_objects s' = seq_objects s"
    "map o_id (t_objects s') = map o_id (t_objects s)"
    by (simp_all add: s' comp_id_update)
  from assms(1) objs show ?thesis
    unfolding wf_db_iff same by blast
qed


lemma preserves_wfI:
  "(\<And>e req usr s r sess s'. wf_db s \<Longrightarrow> h e req usr s = Done r sess s' \<Longrightarrow> wf_db s')
     \<Longrightarrow> preserves_wf h"
  unfolding preserves_wf_def by blast

lemma preserves_wfD:
  "preserves_wf h \<Longrightarrow> wf_db s \<Longrightarrow> h e req usr s = Done r sess s' \<Longrightarrow> wf_db s'"
  unfolding preserves_wf_def by blast

lemma register_preserves: "preserves_wf post_auth_register"
proof (rule preserves_wfI)
  fix e req usr s r sess s'
  assume wf: "wf_db s" and d: "post_auth_register e req usr s = Done r sess s'"
  show "wf_db s'"
  proof (cases "insert_company (clock e) (jb_companyName (req_body req)) s")
    case (Inl err)
    with wf d show ?thesis
      by (auto simp: post_auth_register_def Let_def split: option.splits)
  next
    case (Inr p1)
    obtain company s1 where p1: "p1 = (company, s1)" by (cases p1)
    from wf Inr p1 have wf1: "wf_db s1" by (auto dest: wf_insert_company)
    show ?thesis
    proof (cases "ensureRoleExists (clock e) ''admin'' admin_permissions s1")
      case (Inl err)
      with wf wf1 d \<open>insert_company _ _ s = Inr p1\<close> p1 show ?thesis
        by (auto simp: post_auth_register_def Let_def split: option.splits)
    next
      case a: (Inr p2)
      obtain adminRole s2 where p2: "p2 = (adminRole, s2)" by (cases p2)
      from wf1 a p2 have wf2: "wf_db s2" by (auto dest: wf_ensureRoleExists)
      show ?thesis
      proof (cases "ensureRoleExists (clock e) ''user'' user_permissions s2")
        case (Inl err)
        with wf wf2 d \<open>insert_company _ _ s = Inr p1\<close> p1 a p2 show ?thesis
          by (auto simp: post_auth_register_def Let_def split: option.splits)
      next
        case b: (Inr p3)
        obtain userRole s3 where p3: "p3 = (userRole, s3)" by (cases p3)
        from wf2 b p3 have wf3: "wf_db s3" by (auto dest: wf_ensureRoleExists)
        from wf wf3 d \<open>insert_company _ _ s = Inr p1\<close> p1 a p2 b p3 show ?thesis
          by (auto simp: post_auth_register_def Let_def
              split: option.splits sum.splits prod.splits
              dest: wf_insert_user wf_insert_userRole)
      qed
    qed
  qed
qed



lemma unchanged_preserves:
  "(\<And>e req usr s r sess s'. h e req usr s = Done r sess s' \<Longrightarrow> s' = s) \<Longrightarrow> preserves_wf h"
  by (rule preserves_wfI) blast

lemma login_unchanged: "post_auth_login e req usr s = Done r sess s' \<Longrightarrow> s' = s"
  by (auto simp: post_auth_login_def Let_def split: option.splits sum.splits if_splits)

lemma get_objects_unchanged: "get_objects e req usr s = Done r sess s' \<Longrightarrow> s' = s"
  by (cases usr) (auto simp: get_objects_def Let_def split: sum.splits)

lemma readers_unchanged:
  "post_auth_logout e req usr s = Done r sess s' \<Longrightarrow> s' = s"
  "get_user e req usr s = Done r sess s' \<Longrightarrow> s' = s"
  "get_roles e req usr s = Done r sess s' \<Longrightarrow> s' = s"
  "list_company_users e req usr s = Done r sess s' \<Longrightarrow> s' = s"
  "auth_middleware e req usr s = Done r sess s' \<Longrightarrow> s' = s"
  "get_object_types e req usr s = Done r sess s' \<Longrightarrow> s' = s"
  by (auto simp: post_auth_logout_def get_user_def get_roles_def list_company_users_def
        auth_middleware_def get_object_types_def Let_def split: option.splits if_splits)

lemma get_users_unchanged: "get_users e req usr s = Done r sess s' \<Longrightarrow> s' = s"
  by (auto simp: get_users_def split: if_splits dest: readers_unchanged)


lemma readers_preserve:
  "preserves_wf post_auth_login" "preserves_wf post_auth_logout" "preserves_wf get_user"
  "preserves_wf get_roles" "preserves_wf list_company_users" "preserves_wf get_users"
  "preserves_wf auth_middleware" "preserves_wf get_objects" "preserves_wf get_object_types"
  by (rule unchanged_preserves,
      erule login_unchanged readers_unchanged get_users_unchanged get_objects_unchanged)+

lemma assign_role_preserves: "preserves_wf (assign_role userId)"
  by (rule preserves_wfI)
     (auto simp: assign_role_def Let_def split: option.splits sum.splits if_splits
        dest: wf_insert_userRole)

lemma checkRole_preserves: "preserves_wf h \<Longrightarrow> preserves_wf (checkRole roleName h)"
  by (rule preserves_wfI) (auto simp: checkRole_def split: if_splits dest: preserves_wfD)

lemma post_user_roles_preserves: "preserves_wf (post_user_roles userId)"
  by (rule preserves_wfI)
     (auto simp: post_user_roles_def split: if_splits dest: preserves_wfD [OF assign_role_preserves])

lemma post_objects_preserves: "preserves_wf post_objects"
  by (rule preserves_wfI)
     (auto simp: post_objects_def split: option.splits sum.splits if_splits
        dest: wf_insert_object)


lemma put_objects_preserves: "preserves_wf (put_objects id_param)"
proof (rule preserves_wfI)
  fix e req usr s r sess s'
  assume wf: "wf_db s" and d: "put_objects id_param e req usr s = Done r sess s'"
  show "wf_db s'"
  proof (cases "update_objects (jb_object (req_body req)) (EqInt Col_id (parseInt id_param)) s")
    case (Inl err)
    with wf d show ?thesis
      by (auto simp: put_objects_def Let_def split: option.splits sum.splits list.splits if_splits)
  next
    case (Inr p)
    obtain updated s1 where p: "p = (updated, s1)" by (cases p)
    from wf Inr p have "wf_db s1" by (auto dest: wf_update_objects)
    with wf d Inr p show ?thesis
      by (auto simp: put_objects_def Let_def split: option.splits sum.splits list.splits if_splits)
  qed
qed

lemma delete_object_preserves: "preserves_wf (delete_object id_param)"
proof (rule preserves_wfI)
  fix e req usr s r sess s'
  assume wf: "wf_db s" and d: "delete_object id_param e req usr s = Done r sess s'"
  show "wf_db s'"
  proof (cases "delete_objects (EqInt Col_id (parseInt id_param)) s")
    case (Inl err)
    with wf d show ?thesis
      by (auto simp: delete_object_def Let_def split: option.splits sum.splits list.splits if_splits)
  next
    case (Inr s1)
    with wf have "wf_db s1" by (auto dest: wf_delete_objects)
    with wf d Inr show ?thesis
      by (auto simp: delete_object_def Let_def split: option.splits sum.splits list.splits if_splits)
  qed
qed

lemma route_preserves: "(\<And>p. preserves_wf (h p)) \<Longrightarrow> preserves_wf (route m pat h)"
  by (rule preserves_wfI)
     (auto simp: route_def split: if_splits option.splits dest: preserves_wfD)

lemma use_api_preserves: "preserves_wf h \<Longrightarrow> preserves_wf (use_api h)"
  by (rule preserves_wfI)
     (auto simp: use_api_def split: if_splits list.splits dest: preserves_wfD)

lemma run_layers_preserves: "list_all preserves_wf ls \<Longrightarrow> preserves_wf (run_layers ls)"
proof (induction ls)
  case Nil
  show ?case by (rule preserves_wfI) simp
next
  case (Cons l ls)
  then have l: "preserves_wf l" and ls: "preserves_wf (run_layers ls)" by simp_all
  show ?case
  proof (rule preserves_wfI)
    fix e req usr s r sess s'
    assume wf: "wf_db s" and run: "run_layers (l # ls) e req usr s = Done r sess s'"
    show "wf_db s'"
    proof (cases "l e req usr s")
      case Next
      with run have "run_layers ls e req usr s = Done r sess s'" by simp
      with wf show ?thesis by (rule preserves_wfD [OF ls])
    next
      case (Done r0 sess0 s0)
      with run have "l e req usr s = Done r sess s'" by simp
      with wf show ?thesis by (rule preserves_wfD [OF l])
    qed
  qed
qed


lemma registerRoutes_preserve: "list_all preserves_wf registerRoutes"
  by (simp add: registerRoutes_def setupAuth_def route_preserves use_api_preserves
        checkRole_preserves register_preserves readers_preserve assign_role_preserves
        post_user_roles_preserves post_objects_preserves put_objects_preserves
        delete_object_preserves)

lemma app_preserves_wf:
  "wf_db s \<Longrightarrow> app e req s = Done r sess s' \<Longrightarrow> wf_db s'"
  unfolding app_def
  by (rule preserves_wfD [OF run_layers_preserves [OF registerRoutes_preserve]])

lemma wf_empty_db: "wf_db empty_db"
  by (simp add: wf_db_def empty_db_def)

lemma serve_preserves_wf: "wf_db s \<Longrightarrow> wf_db (serve e reqs s)"
proof (induction reqs arbitrary: s)
  case Nil
  then show ?case by simp
next
  case (Cons req reqs)
  show ?case
  proof (cases "app e req s")
    case Next
    with Cons show ?thesis by simp
  next
    case (Done r sess s')
    from app_preserves_wf [OF Cons.prems Done] have "wf_db s'" .
    with Cons.IH Done show ?thesis by simp
  qed
qed

text \<open>The example databases satisfy the constraints.\<close>

lemma reached_examples_wf: "wf_db two_tenants" "wf_db acme_db" "wf_db same_name_db"
  unfolding two_tenants_def acme_db_def same_name_db_def
  by (rule serve_preserves_wf [OF wf_empty_db])+

lemma staff_db_wf: "wf_db staff_db"
  by code_simp

section \<open>Registration\<close>

lemma insert_company_Inr:
  assumes "insert_company now name s = Inr (c, s1)"
  obtains n where "name = Some n"
    and "c = \<lparr>c_id = seq_companies s, c_name = n, c_createdAt = now\<rparr>"
    and "s1 = s\<lparr>t_companies := t_companies s @ [c], seq_companies := seq_companies s + 1\<rparr>"
  using assms by (auto simp: insert_company_def Let_def split: option.splits)

lemma ensureRoleExists_Inr:
  assumes "ensureRoleExists now name perms s = Inr (r, s1)"
  shows "t_companies s1 = t_companies s" and "t_users s1 = t_users s"
    and "t_userRoles s1 = t_userRoles s" and "t_objects s1 = t_objects s"
    and "seq_companies s1 = seq_companies s" and "seq_users s1 = seq_users s"
    and "r \<in> set (t_roles s1)" and "r_name r = name"
    and "set (t_roles s) \<subseteq> set (t_roles s1)"
  using assms
  by (auto simp: ensureRoleExists_def insert_role_def Let_def find_Some_iff
      split: option.splits if_splits)

lemma ensureRoleExists_ids:
  assumes "ensureRoleExists now name perms s = Inr (r, s1)"
    and "distinct (map r_id (t_roles s))" and "list_all (\<lambda>r. r_id r < seq_roles s) (t_roles s)"
  shows "distinct (map r_id (t_roles s1)) \<and> list_all (\<lambda>r. r_id r < seq_roles s1) (t_roles s1)"
proof (cases "find (\<lambda>r. r_name r = name) (t_roles s)")
  case None
  with assms(1) have s1: "s1 = s\<lparr>t_roles := t_roles s @ [r], seq_roles := seq_roles s + 1\<rparr>"
    and r: "r_id r = seq_roles s"
    by (auto simp: ensureRoleExists_def insert_role_def Let_def split: if_splits)
  from assms(3) have below: "\<forall>x \<in> set (t_roles s). r_id x < seq_roles s"
    by (simp add: list_all_iff)
  then have "seq_roles s \<notin> r_id ` set (t_roles s)" by auto
  with assms(2) below show ?thesis
    by (auto simp: s1 r list_all_iff)
next
  case (Some existingRole)
  with assms show ?thesis by (simp add: ensureRoleExists_def)
qed

lemma insert_user_Inr:
  "insert_user now username password cid s = Inr (u, s1) \<Longrightarrow>
     u_id u = seq_users s \<and> u_companyId u = cid \<and> username = Some (u_username u) \<and>
     u_password u = password \<and>
     s1 = s\<lparr>t_users := t_users s @ [u], seq_users := seq_users s + 1\<rparr>"
  by (auto simp: insert_user_def Let_def split: option.splits if_splits)

lemma insert_userRole_Inr:
  "insert_userRole now uid rid s = Inr s1 \<Longrightarrow>
     (\<exists>k. rid = Some k \<and>
       s1 = s\<lparr>t_userRoles := t_userRoles s @ [\<lparr>ur_userId = uid, ur_roleId = k, ur_createdAt = now\<rparr>]\<rparr>)"
  by (auto simp: insert_userRole_def split: option.splits if_splits)

lemma filter_key_unique:
  "distinct (map f xs) \<Longrightarrow> x \<in> set xs \<Longrightarrow> filter (\<lambda>y. f y = f x) xs = [x]"
proof (induction xs)
  case Nil
  then show ?case by simp
next
  case (Cons a xs)
  show ?case
  proof (cases "a = x")
    case True
    with Cons.prems have "f x \<notin> f ` set xs" by auto
    then have "\<forall>y \<in> set xs. f y \<noteq> f x" by (metis image_eqI)
    then have "filter (\<lambda>y. f y = f x) xs = []" by (simp add: filter_empty_conv)
    with True show ?thesis by simp
  next
    case False
    with Cons.prems have "x \<in> set xs" and "f a \<noteq> f x" by auto
    with Cons show ?thesis by simp
  qed
qed

text \<open>The steps of a registration that succeeds.\<close>

lemma register_steps:
  assumes "post_auth_register e req usr s = Done r sess s'" and "status r = 200"
  obtains company s1 adminRole s2 userRole s3 hashedPassword newUser s4 roleToAssign where
    "insert_company (clock e) (jb_companyName (req_body req)) s = Inr (company, s1)"
    "ensureRoleExists (clock e) ''admin'' admin_permissions s1 = Inr (adminRole, s2)"
    "ensureRoleExists (clock e) ''user'' user_permissions s2 = Inr (userRole, s3)"
    "insert_user (clock e) (jb_username (req_body req)) hashedPassword (c_id company) s3 = Inr (newUser, s4)"
    "roleToAssign = (if length (filter (\<lambda>u. u_companyId u = c_id company) (t_users s4)) = 1
                     then adminRole else userRole)"
    "insert_userRole (clock e) (u_id newUser) (Some (r_id roleToAssign)) s4 = Inr s'"
    "sess = Some (u_id newUser)"
    "payload r = MessageUser ''Registration successful''
                   (without_password (with_roles newUser (getUserRoles s' (u_id newUser))))"
  using assms
  by (auto simp: post_auth_register_def Let_def json_def
      split: option.splits sum.splits prod.splits)


lemma users_of_new_company:
  assumes "list_all (\<lambda>c. c_id c < k) cs"
    and "list_all (\<lambda>u. u_companyId u \<in> set (map c_id cs)) us"
  shows "filter (\<lambda>u. u_companyId u = k) us = []"
proof -
  have "\<forall>u \<in> set us. u_companyId u < k"
    using assms by (auto simp: list_all_iff)
  then show ?thesis by (auto simp: filter_empty_conv)
qed

lemma register_new_company:
  assumes wf: "wf_db s"
    and reg: "post_auth_register e req usr s = Done r sess s'" and ok: "status r = 200"
  shows "\<exists>name. jb_companyName (req_body req) = Some name \<and>
           t_companies s' = t_companies s @
             [\<lparr>c_id = seq_companies s, c_name = name, c_createdAt = clock e\<rparr>]"
    and "seq_companies s \<notin> set (map c_id (t_companies s))"
    and "map u_id (filter (\<lambda>u. u_companyId u = seq_companies s) (t_users s')) = [seq_users s]"
    and "sess = Some (seq_users s)"
    and "map r_name (getUserRoles s' (seq_users s)) = [''admin'']"
    and "\<exists>newUser. t_users s' = t_users s @ [newUser] \<and> u_id newUser = seq_users s \<and>
           u_companyId newUser = seq_companies s \<and>
           jb_username (req_body req) = Some (u_username newUser)"
proof -
  from reg ok obtain company s1 adminRole s2 userRole s3 hashedPassword newUser s4 roleToAssign
    where co: "insert_company (clock e) (jb_companyName (req_body req)) s = Inr (company, s1)"
      and ad: "ensureRoleExists (clock e) ''admin'' admin_permissions s1 = Inr (adminRole, s2)"
      and us: "ensureRoleExists (clock e) ''user'' user_permissions s2 = Inr (userRole, s3)"
      and nu: "insert_user (clock e) (jb_username (req_body req)) hashedPassword (c_id company) s3
                 = Inr (newUser, s4)"
      and ro: "roleToAssign = (if length (filter (\<lambda>u. u_companyId u = c_id company) (t_users s4)) = 1
                     then adminRole else userRole)"
      and ur: "insert_userRole (clock e) (u_id newUser) (Some (r_id roleToAssign)) s4 = Inr s'"
      and se: "sess = Some (u_id newUser)"
    by (rule register_steps)
  from co obtain name where cn: "jb_companyName (req_body req) = Some name"
    and cv: "company = \<lparr>c_id = seq_companies s, c_name = name, c_createdAt = clock e\<rparr>"
    and c: "s1 = s\<lparr>t_companies := t_companies s @ [company],
                    seq_companies := seq_companies s + 1\<rparr>"
    by (rule insert_company_Inr)
  note a = ensureRoleExists_Inr [OF ad]
  note b = ensureRoleExists_Inr [OF us]
  note n = insert_user_Inr [OF nu]
  from insert_userRole_Inr [OF ur]
  have s': "s' = s4\<lparr>t_userRoles := t_userRoles s4 @
      [\<lparr>ur_userId = u_id newUser, ur_roleId = r_id roleToAssign, ur_createdAt = clock e\<rparr>]\<rparr>"
    by simp
  have cid: "c_id company = seq_companies s" using cv by simp
  have users3: "t_users s3 = t_users s" using a b c by simp
  have users': "t_users s' = t_users s @ [newUser]" using s' n users3 by simp
  have uid: "u_id newUser = seq_users s" using n a b c by simp
  show "\<exists>name. jb_companyName (req_body req) = Some name \<and>
           t_companies s' = t_companies s @
             [\<lparr>c_id = seq_companies s, c_name = name, c_createdAt = clock e\<rparr>]"
    using cn cv c a b n s' by simp
  from wf have below: "list_all (\<lambda>c. c_id c < seq_companies s) (t_companies s)"
    and fk: "list_all (\<lambda>u. u_companyId u \<in> set (map c_id (t_companies s))) (t_users s)"
    by (simp_all add: wf_db_def)
  from below show "seq_companies s \<notin> set (map c_id (t_companies s))"
    by (auto simp: list_all_iff)
  have old: "filter (\<lambda>u. u_companyId u = seq_companies s) (t_users s) = []"
    by (rule users_of_new_company [OF below fk])
  have only: "filter (\<lambda>u. u_companyId u = seq_companies s) (t_users s') = [newUser]"
    using old users' n cid by simp
  then show "map u_id (filter (\<lambda>u. u_companyId u = seq_companies s) (t_users s')) = [seq_users s]"
    using uid by simp
  show "sess = Some (seq_users s)" using se uid by simp
  show "\<exists>newUser. t_users s' = t_users s @ [newUser] \<and> u_id newUser = seq_users s \<and>
           u_companyId newUser = seq_companies s \<and>
           jb_username (req_body req) = Some (u_username newUser)"
    using users' uid n cid by auto
  have users4: "t_users s4 = t_users s'" using s' by simp
  have role: "roleToAssign = adminRole" using ro only users4 cid by simp
  from wf have "distinct (map r_id (t_roles s))"
    and "list_all (\<lambda>r. r_id r < seq_roles s) (t_roles s)"
    by (simp_all add: wf_db_def)
  then have "distinct (map r_id (t_roles s1))"
    and "list_all (\<lambda>r. r_id r < seq_roles s1) (t_roles s1)"
    using c by simp_all
  from ensureRoleExists_ids [OF ad this]
  have "distinct (map r_id (t_roles s2))" and "list_all (\<lambda>r. r_id r < seq_roles s2) (t_roles s2)"
    by simp_all
  from ensureRoleExists_ids [OF us this]
  have dist: "distinct (map r_id (t_roles s3))" by simp
  have mem: "adminRole \<in> set (t_roles s3)" using a(7) b(9) by auto
  have roles': "t_roles s' = t_roles s3" using s' n by simp
  have joined: "filter (\<lambda>r. r_id r = r_id adminRole) (t_roles s') = [adminRole]"
    unfolding roles' by (rule filter_key_unique [OF dist mem])
  from wf have "list_all (\<lambda>u. u_id u < seq_users s) (t_users s)"
    and "list_all (\<lambda>ur. ur_userId ur \<in> set (map u_id (t_users s)) \<and>
                     ur_roleId ur \<in> set (map r_id (t_roles s))) (t_userRoles s)"
    by (simp_all add: wf_db_def)
  then have "\<forall>ur \<in> set (t_userRoles s). ur_userId ur < seq_users s"
    by (auto simp: list_all_iff)
  then have none: "filter (\<lambda>ur. ur_userId ur = seq_users s) (t_userRoles s) = []"
    by (auto simp: filter_empty_conv)
  have "t_userRoles s4 = t_userRoles s" using a b c n by simp
  with s' have "t_userRoles s' = t_userRoles s @
      [\<lparr>ur_userId = u_id newUser, ur_roleId = r_id roleToAssign, ur_createdAt = clock e\<rparr>]"
    by simp
  with none uid role joined have "getUserRoles s' (seq_users s) = [adminRole]"
    by (simp add: getUserRoles_def)
  with a(8) show "map r_name (getUserRoles s' (seq_users s)) = [''admin'']" by simp
qed


lemma registered:
  assumes "req_method req = POST" and "req_path req = [''api'', ''auth'', ''register'']"
    and "status_of (app e req s) = Some 200"
  obtains r sess where
    "post_auth_register e req (deserializeUser s (req_session req)) s = Done r sess (serve e [req] s)"
    and "status r = 200"
proof -
  from assms(3) obtain r sess s' where d: "app e req s = Done r sess s'" and "status r = 200"
    by (cases "app e req s") auto
  moreover from d have "serve e [req] s = s'" by simp
  ultimately show ?thesis using that app_register [OF assms(1,2), of e s] by simp
qed


text \<open>
  C9. Every registration that succeeds appends a new row to \<open>companies\<close>, whose id no
  existing company has; the company name of the request is not compared with the
  names already stored, so a name that is already there yields a second row with that
  name. After the request (and so when the role is chosen, the users table not changing
  in between) the new user is the only user of the new company.
\<close>

theorem register_always_new_company:
  assumes "wf_db s"
    and "req_method req = POST" and "req_path req = [''api'', ''auth'', ''register'']"
    and "status_of (app e req s) = Some 200"
  shows "(\<exists>name. jb_companyName (req_body req) = Some name \<and>
            t_companies (serve e [req] s) = t_companies s @
              [\<lparr>c_id = seq_companies s, c_name = name, c_createdAt = clock e\<rparr>]) \<and>
         seq_companies s \<notin> set (map c_id (t_companies s)) \<and>
         map u_id (filter (\<lambda>u. u_companyId u = seq_companies s) (t_users (serve e [req] s)))
           = [seq_users s]"
proof -
  from assms(2-4) obtain r sess where
    "post_auth_register e req (deserializeUser s (req_session req)) s = Done r sess (serve e [req] s)"
    and "status r = 200"
    by (rule registered)
  from register_new_company(1-3) [OF assms(1) this] show ?thesis by blast
qed


theorem register_always_new_company_witness:
  "((\<exists>name. jb_companyName (req_body (register_request ''bob'' ''y'' ''Acme'')) = Some name \<and>
      t_companies (serve example_env [register_request ''bob'' ''y'' ''Acme''] acme_db) =
        t_companies acme_db @
          [\<lparr>c_id = seq_companies acme_db, c_name = name, c_createdAt = clock example_env\<rparr>]) \<and>
    seq_companies acme_db \<notin> set (map c_id (t_companies acme_db)) \<and>
    map u_id (filter (\<lambda>u. u_companyId u = seq_companies acme_db)
      (t_users (serve example_env [register_request ''bob'' ''y'' ''Acme''] acme_db)))
      = [seq_users acme_db]) \<and>
   map c_name (t_companies acme_db) = [''Acme''] \<and>
   map (\<lambda>c. (c_id c, c_name c))
     (t_companies (serve example_env [register_request ''bob'' ''y'' ''Acme''] acme_db))
     = [(1, ''Acme''), (2, ''Acme'')]"
proof -
  have wf: "wf_db acme_db" by code_simp
  have m: "req_method (register_request ''bob'' ''y'' ''Acme'') = POST"
    by (simp add: register_request_def request_of_def)
  have p: "req_path (register_request ''bob'' ''y'' ''Acme'') = [''api'', ''auth'', ''register'']"
    by (simp add: register_request_def request_of_def)
  have ok: "status_of (app example_env (register_request ''bob'' ''y'' ''Acme'') acme_db) = Some 200"
    by code_simp
  have before: "map c_name (t_companies acme_db) = [''Acme'']" by code_simp
  have after: "map (\<lambda>c. (c_id c, c_name c))
     (t_companies (serve example_env [register_request ''bob'' ''y'' ''Acme''] acme_db))
     = [(1, ''Acme''), (2, ''Acme'')]" by code_simp
  from register_always_new_company [OF wf m p ok] before after show ?thesis
    by blast
qed

text \<open>
  The branch of the handler that assigns the role \<open>user\<close> is never taken: in every
  database that satisfies the constraints, a registration that succeeds puts its user
  into a company that did not exist before and leaves that user with the role \<open>admin\<close>
  alone.
\<close>

lemma registered_user_is_admin:
  assumes "wf_db s"
    and "req_method req = POST" and "req_path req = [''api'', ''auth'', ''register'']"
    and "status_of (app e req s) = Some 200"
  shows "\<exists>newUser. t_users (serve e [req] s) = t_users s @ [newUser] \<and>
           jb_username (req_body req) = Some (u_username newUser) \<and>
           u_companyId newUser \<notin> set (map c_id (t_companies s)) \<and>
           map r_name (getUserRoles (serve e [req] s) (u_id newUser)) = [''admin'']"
proof -
  from assms(2-4) obtain r sess where
    "post_auth_register e req (deserializeUser s (req_session req)) s = Done r sess (serve e [req] s)"
    and "status r = 200"
    by (rule registered)
  from register_new_company(2,5,6) [OF assms(1) this] show ?thesis by metis
qed

text \<open>
  C5 asks that the first user registered under a new company gets the role \<open>admin\<close>
  and every later user registered in that company gets the role \<open>user\<close>. The handler
  means to do so (it ensures the role \<open>user\<close> and counts the users of the company),
  but it inserts a new company for every registration. Alice and bob register one
  after the other, both with the company name \<open>Acme\<close>: two companies of that name are
  stored, bob is the only user of the second, and bob's only role is \<open>admin\<close>, as is
  alice's.
\<close>

theorem second_registration_gets_admin:
  "map u_username (t_users same_name_db) = [''alice'', ''bob''] \<and>
   map c_name (t_companies same_name_db) = [''Acme'', ''Acme''] \<and>
   map u_companyId (t_users same_name_db) = [1, 2] \<and>
   map r_name (getUserRoles same_name_db 1) = [''admin''] \<and>
   map r_name (getUserRoles same_name_db 2) = [''admin'']"
  by code_simp

text \<open>
  C10. A registration whose user name is already the name of a stored user is answered
  with status 400 and the message \<open>Username already exists\<close>; the database after the
  request is the database before it (no company, user, role or role assignment is
  added), and the session is left as it was.
\<close>

theorem register_existing_username:
  assumes "req_method req = POST" and "req_path req = [''api'', ''auth'', ''register'']"
    and "jb_username (req_body req) = Some name"
    and "name \<in> set (map u_username (t_users s))"
  shows "app e req s = Done (json 400 (Message ''Username already exists''))
                         (session_of req (deserializeUser s (req_session req))) s"
proof -
  have "find (\<lambda>u. Some (u_username u) = jb_username (req_body req)) (t_users s) \<noteq> None"
    using assms(3,4) by (auto simp: find_None_iff)
  then obtain existingUser where
    "find (\<lambda>u. Some (u_username u) = jb_username (req_body req)) (t_users s) = Some existingUser"
    by blast
  then have "post_auth_register e req (deserializeUser s (req_session req)) s =
      Done (json 400 (Message ''Username already exists''))
        (session_of req (deserializeUser s (req_session req))) s"
    by (simp add: post_auth_register_def)
  with app_register [OF assms(1,2)] show ?thesis by simp
qed

theorem register_existing_username_witness:
  "app example_env (register_request ''alice'' ''other'' ''Gamma'') two_tenants =
     Done (json 400 (Message ''Username already exists''))
       (session_of (register_request ''alice'' ''other'' ''Gamma'')
          (deserializeUser two_tenants (req_session (register_request ''alice'' ''other'' ''Gamma''))))
       two_tenants"
proof -
  have m: "req_method (register_request ''alice'' ''other'' ''Gamma'') = POST"
    by (simp add: register_request_def request_of_def)
  have p: "req_path (register_request ''alice'' ''other'' ''Gamma'') = [''api'', ''auth'', ''register'']"
    by (simp add: register_request_def request_of_def)
  have u: "jb_username (req_body (register_request ''alice'' ''other'' ''Gamma'')) = Some ''alice''"
    by (simp add: register_request_def request_of_def empty_body_def)
  have ex: "''alice'' \<in> set (map u_username (t_users two_tenants))" by code_simp
  show ?thesis by (rule register_existing_username [OF m p u ex])
qed

section \<open>The gates of the routes\<close>

text \<open>
  C8. A caller with a session none of whose roles is named \<open>admin\<close> gets status 403
  from \<open>GET /api/roles\<close>, \<open>GET /api/users\<close> and \<open>POST /api/users/:userId/roles\<close>,
  whatever the permission flags of the caller's roles are, and the database is not
  changed. So these routes succeed only for a caller with a role named \<open>admin\<close>; the
  flag \<open>all\<close> does not open them.
\<close>

theorem admin_gate:
  assumes "deserializeUser s (req_session req) = Some caller"
    and "\<not> list_ex (\<lambda>r. r_name r = ''admin'') (v_roles caller)"
    and "(req_method req = GET \<and> req_path req = [''api'', ''roles'']) \<or>
         (req_method req = GET \<and> req_path req = [''api'', ''users'']) \<or>
         (req_method req = POST \<and> userId \<noteq> [] \<and>
            req_path req = [''api'', ''users'', userId, ''roles''])"
  shows "app e req s = Done (json 403 (Message ''Forbidden'')) (req_session req) s"
proof -
  have gate: "\<not> has_role ''admin'' (Some caller)"
    using assms(2) by (simp add: has_role_def)
  have sess: "session_of req (Some caller) = req_session req"
    by (simp add: session_of_def)
  from assms(3) consider
      (roles) "req_method req = GET" "req_path req = [''api'', ''roles'']"
    | (users) "req_method req = GET" "req_path req = [''api'', ''users'']"
    | (assign) "req_method req = POST" "userId \<noteq> []"
        "req_path req = [''api'', ''users'', userId, ''roles'']"
    by blast
  then show ?thesis
  proof cases
    case roles
    then show ?thesis using gate sess assms(1) by (simp add: app_get_roles get_roles_def)
  next
    case users
    then show ?thesis using gate sess assms(1) by (simp add: app_get_users get_users_def)
  next
    case assign
    then show ?thesis using gate sess assms(1)
      by (simp add: app_post_user_roles post_user_roles_def)
  qed
qed

theorem admin_gate_witness:
  "list_all (\<lambda>r. p_all (r_permissions r)) (getUserRoles staff_db 1) \<and>
   app example_env (request_of GET [''api'', ''roles''] (Some 1)) staff_db =
     Done (json 403 (Message ''Forbidden'')) (Some 1) staff_db \<and>
   app example_env (request_of GET [''api'', ''users''] (Some 1)) staff_db =
     Done (json 403 (Message ''Forbidden'')) (Some 1) staff_db \<and>
   app example_env (request_of POST [''api'', ''users'', ''2'', ''roles''] (Some 1)) staff_db =
     Done (json 403 (Message ''Forbidden'')) (Some 1) staff_db"
proof -
  let ?carol = "the (deserializeUser staff_db (Some 1))"
  have c: "deserializeUser staff_db (Some 1) = Some ?carol" by code_simp
  have n: "\<not> list_ex (\<lambda>r. r_name r = ''admin'') (v_roles ?carol)" by code_simp
  have a: "list_all (\<lambda>r. p_all (r_permissions r)) (getUserRoles staff_db 1)" by code_simp
  have r1: "app example_env (request_of GET [''api'', ''roles''] (Some 1)) staff_db =
     Done (json 403 (Message ''Forbidden'')) (Some 1) staff_db"
    using admin_gate [of staff_db "request_of GET [''api'', ''roles''] (Some 1)" ?carol "''2''"
        example_env] c n
    by (simp add: request_of_def)
  have r2: "app example_env (request_of GET [''api'', ''users''] (Some 1)) staff_db =
     Done (json 403 (Message ''Forbidden'')) (Some 1) staff_db"
    using admin_gate [of staff_db "request_of GET [''api'', ''users''] (Some 1)" ?carol "''2''"
        example_env] c n
    by (simp add: request_of_def)
  have r3: "app example_env (request_of POST [''api'', ''users'', ''2'', ''roles''] (Some 1)) staff_db =
     Done (json 403 (Message ''Forbidden'')) (Some 1) staff_db"
    using admin_gate [of staff_db "request_of POST [''api'', ''users'', ''2'', ''roles''] (Some 1)"
        ?carol "''2''" example_env] c n
    by (simp add: request_of_def)
  from a r1 r2 r3 show ?thesis by blast
qed

text \<open>
  The check the routes make with \<open>some\<close> is the effective permission of the
  specification.
\<close>

lemma has_permission_iff: "has_permission flag u \<longleftrightarrow> effective_permission flag (v_roles u)"
  by (simp add: has_permission_def effective_permission_def list_ex_iff)

lemma post_objects_gate:
  "has_permission p_create u \<Longrightarrow> status_of (post_objects e req (Some u) s) \<in> {Some 200, Some 500}"
  "\<not> has_permission p_create u \<Longrightarrow>
     post_objects e req (Some u) s = Done (json 403 (Message ''Forbidden'')) (req_session req) s"
  by (simp_all add: post_objects_def json_def session_of_def split: sum.splits prod.splits)

lemma put_objects_gate:
  "has_permission p_update u \<Longrightarrow>
     status_of (put_objects i e req (Some u) s) \<in> {Some 200, Some 404, Some 500}"
  "\<not> has_permission p_update u \<Longrightarrow>
     put_objects i e req (Some u) s = Done (json 403 (Message ''Forbidden'')) (req_session req) s"
  by (simp_all add: put_objects_def json_def session_of_def Let_def
        split: sum.splits prod.splits list.splits)

lemma delete_object_gate:
  "has_permission p_delete u \<Longrightarrow>
     status_of (delete_object i e req (Some u) s) \<in> {Some 200, Some 404, Some 500}"
  "\<not> has_permission p_delete u \<Longrightarrow>
     delete_object i e req (Some u) s = Done (json 403 (Message ''Forbidden'')) (req_session req) s"
  by (simp_all add: delete_object_def json_def session_of_def Let_def
        split: sum.splits prod.splits list.splits)

text \<open>
  C7. For a caller with a session, \<open>POST /api/objects\<close>, \<open>PUT /api/objects/:id\<close> and
  \<open>DELETE /api/objects/:id\<close> go on to the store (and answer 200, 404 or 500) exactly
  when one of the caller's roles has the flag of the route (\<open>create\<close>, \<open>update\<close>,
  \<open>delete\<close>) or the flag \<open>all\<close>; otherwise the answer is 403 \<open>Forbidden\<close> and the
  database is not changed.
\<close>

theorem permission_gate:
  assumes "deserializeUser s (req_session req) = Some caller"
    and "(req_method req = POST \<and> req_path req = [''api'', ''objects''] \<and> flag = p_create) \<or>
         (req_method req = PUT \<and> id_param \<noteq> [] \<and>
            req_path req = [''api'', ''objects'', id_param] \<and> flag = p_update) \<or>
         (req_method req = DELETE \<and> id_param \<noteq> [] \<and>
            req_path req = [''api'', ''objects'', id_param] \<and> flag = p_delete)"
  shows "if effective_permission flag (v_roles caller)
         then status_of (app e req s) \<in> {Some 200, Some 404, Some 500}
         else app e req s = Done (json 403 (Message ''Forbidden'')) (req_session req) s"
proof -
  from assms(2) consider
      (create) "req_method req = POST" "req_path req = [''api'', ''objects'']" "flag = p_create"
    | (update) "req_method req = PUT" "id_param \<noteq> []"
        "req_path req = [''api'', ''objects'', id_param]" "flag = p_update"
    | (delete) "req_method req = DELETE" "id_param \<noteq> []"
        "req_path req = [''api'', ''objects'', id_param]" "flag = p_delete"
    by blast
  then show ?thesis
  proof cases
    case create
    then have "app e req s = post_objects e req (Some caller) s"
      using assms(1) by (simp add: app_post_objects)
    with create(3) post_objects_gate [of caller e req s] show ?thesis
      by (auto simp: has_permission_iff)
  next
    case update
    then have "app e req s = put_objects id_param e req (Some caller) s"
      using assms(1) by (simp add: app_put_objects)
    with update(4) put_objects_gate [of caller id_param e req s] show ?thesis
      by (auto simp: has_permission_iff)
  next
    case delete
    then have "app e req s = delete_object id_param e req (Some caller) s"
      using assms(1) by (simp add: app_delete_object)
    with delete(4) delete_object_gate [of caller id_param e req s] show ?thesis
      by (auto simp: has_permission_iff)
  qed
qed


theorem permission_gate_witness:
  "effective_permission p_create (getUserRoles staff_db 1) \<and>
   status_of (app example_env (create_request 1 ''Deal'' ''Lead'') staff_db)
     \<in> {Some 200, Some 404, Some 500} \<and>
   \<not> effective_permission p_create (getUserRoles staff_db 2) \<and>
   app example_env (create_request 2 ''Deal'' ''Lead'') staff_db =
     Done (json 403 (Message ''Forbidden'')) (Some 2) staff_db"
proof -
  let ?carol = "the (deserializeUser staff_db (Some 1))"
  let ?dave = "the (deserializeUser staff_db (Some 2))"
  have c1: "deserializeUser staff_db (req_session (create_request 1 ''Deal'' ''Lead'')) = Some ?carol"
    by code_simp
  have c2: "deserializeUser staff_db (req_session (create_request 2 ''Deal'' ''Lead'')) = Some ?dave"
    by code_simp
  have r1: "(req_method (create_request 1 ''Deal'' ''Lead'') = POST \<and>
             req_path (create_request 1 ''Deal'' ''Lead'') = [''api'', ''objects''] \<and>
             p_create = p_create) \<or>
            (req_method (create_request 1 ''Deal'' ''Lead'') = PUT \<and> ''1'' \<noteq> [] \<and>
             req_path (create_request 1 ''Deal'' ''Lead'') = [''api'', ''objects'', ''1''] \<and>
             p_create = p_update) \<or>
            (req_method (create_request 1 ''Deal'' ''Lead'') = DELETE \<and> ''1'' \<noteq> [] \<and>
             req_path (create_request 1 ''Deal'' ''Lead'') = [''api'', ''objects'', ''1''] \<and>
             p_create = p_delete)"
    by (simp add: create_request_def request_of_def)
  have r2: "(req_method (create_request 2 ''Deal'' ''Lead'') = POST \<and>
             req_path (create_request 2 ''Deal'' ''Lead'') = [''api'', ''objects''] \<and>
             p_create = p_create) \<or>
            (req_method (create_request 2 ''Deal'' ''Lead'') = PUT \<and> ''1'' \<noteq> [] \<and>
             req_path (create_request 2 ''Deal'' ''Lead'') = [''api'', ''objects'', ''1''] \<and>
             p_create = p_update) \<or>
            (req_method (create_request 2 ''Deal'' ''Lead'') = DELETE \<and> ''1'' \<noteq> [] \<and>
             req_path (create_request 2 ''Deal'' ''Lead'') = [''api'', ''objects'', ''1''] \<and>
             p_create = p_delete)"
    by (simp add: create_request_def request_of_def)
  have v1: "v_roles ?carol = getUserRoles staff_db 1" by code_simp
  have v2: "v_roles ?dave = getUserRoles staff_db 2" by code_simp
  have y: "effective_permission p_create (getUserRoles staff_db 1)" by code_simp
  have n: "\<not> effective_permission p_create (getUserRoles staff_db 2)" by code_simp
  have s2: "req_session (create_request 2 ''Deal'' ''Lead'') = Some 2"
    by (simp add: create_request_def request_of_def)
  from permission_gate [OF c1 r1, of example_env] y v1
  have a: "status_of (app example_env (create_request 1 ''Deal'' ''Lead'') staff_db)
     \<in> {Some 200, Some 404, Some 500}" by simp
  from permission_gate [OF c2 r2, of example_env] n v2 s2
  have b: "app example_env (create_request 2 ''Deal'' ''Lead'') staff_db =
     Done (json 403 (Message ''Forbidden'')) (Some 2) staff_db" by simp
  from y a n b show ?thesis by blast
qed

section \<open>Objects of another company\<close>







section \<open>Requests without a session\<close>

text \<open>
  The middleware that answers 401 is the last layer of \<open>setupAuth\<close>. It guards the
  routes of \<open>registerRoutes\<close>; the routes \<open>setupAuth\<close> registers before it are reached
  by a request without a session and answer it themselves.
\<close>

lemma route_skip:
  "req_method req \<noteq> m \<or> match_path pat (req_path req) = None \<Longrightarrow> route m pat h e req usr s = Next"
  by (auto simp: route_def)

lemma run_layers_append:
  "run_layers (xs @ ys) e req usr s =
     (case run_layers xs e req usr s of Next \<Rightarrow> run_layers ys e req usr s
      | Done r sess s' \<Rightarrow> Done r sess s')"
  by (induction xs) (simp_all split: outcome.splits)

lemma app_get_user:
  "req_method req = GET \<Longrightarrow> req_path req = [''api'', ''user''] \<Longrightarrow>
   app e req s = get_user e req (deserializeUser s (req_session req)) s"
  by (simp add: app_def registerRoutes_def setupAuth_def route_def done_case handlers_answer)

lemma app_logout:
  "req_method req = POST \<Longrightarrow> req_path req = [''api'', ''auth'', ''logout''] \<Longrightarrow>
   app e req s = post_auth_logout e req (deserializeUser s (req_session req)) s"
  by (simp add: app_def registerRoutes_def setupAuth_def route_def done_case handlers_answer)

lemma object_routes_without_user:
  assumes "deserializeUser s (req_session req) = None"
    and "(req_method req = GET \<and> req_path req = [''api'', ''objects'']) \<or>
         (req_method req = POST \<and> req_path req = [''api'', ''objects'']) \<or>
         (req_method req = PUT \<and> id_param \<noteq> [] \<and> req_path req = [''api'', ''objects'', id_param]) \<or>
         (req_method req = DELETE \<and> id_param \<noteq> [] \<and> req_path req = [''api'', ''objects'', id_param])"
  shows "app e req s = Done (json 401 (Message ''Unauthorized'')) None s"
  using assms
  by (auto simp: app_get_objects app_post_objects app_put_objects app_delete_object unauthorized)


lemma role_routes_without_user:
  assumes "deserializeUser s (req_session req) = None"
    and "(req_method req = GET \<and> req_path req = [''api'', ''roles'']) \<or>
         (req_method req = GET \<and> req_path req = [''api'', ''users'']) \<or>
         (req_method req = POST \<and> userId \<noteq> [] \<and>
            req_path req = [''api'', ''users'', userId, ''roles''])"
  shows "app e req s = Done (json 403 (Message ''Forbidden'')) None s"
  using assms
  by (auto simp: app_get_roles app_get_users app_post_user_roles get_roles_def get_users_def
        post_user_roles_def has_role_def session_of_def)


text \<open>
  C6, as amended. A request without a session to a path below \<open>/api/\<close> that matches
  none of the routes registered before the middleware (register, login, logout,
  \<open>GET /api/user\<close>, \<open>GET /api/roles\<close>, \<open>POST /api/users/:userId/roles\<close>,
  \<open>GET /api/users\<close>) is answered with 401 \<open>Unauthorized\<close> by the middleware: the layers
  of \<open>setupAuth\<close> end the request, and no handler of a route runs. \<open>GET /api/user\<close>
  without a session is answered with 401 by its own handler, and logout is served
  without a session. Nothing is said of the three role and user routes.
\<close>

theorem middleware_rejects:
  assumes "deserializeUser s (req_session req) = None"
    and "req_path req = ''api'' # b # rest"
  shows "(req_method req = GET \<and> req_path req = [''api'', ''user''] \<longrightarrow>
            app e req s = Done (json 401 (Message ''Not authenticated'')) None s) \<and>
         (req_method req = POST \<and> req_path req = [''api'', ''auth'', ''logout''] \<longrightarrow>
            app e req s = Done (json 200 (Message ''Logged out successfully'')) None s) \<and>
         (\<not> before_middleware req \<longrightarrow>
            run_layers setupAuth e req None s = Done (json 401 (Message ''Unauthorized'')) None s \<and>
            app e req s = Done (json 401 (Message ''Unauthorized'')) None s)"
proof (intro conjI impI)
  assume "req_method req = GET \<and> req_path req = [''api'', ''user'']"
  then show "app e req s = Done (json 401 (Message ''Not authenticated'')) None s"
    using assms(1) by (simp add: app_get_user get_user_def session_of_def)
next
  assume "req_method req = POST \<and> req_path req = [''api'', ''auth'', ''logout'']"
  then show "app e req s = Done (json 200 (Message ''Logged out successfully'')) None s"
    by (simp add: app_logout post_auth_logout_def)
next
  assume nb: "\<not> before_middleware req"
  then have skip:
    "req_method req \<noteq> POST \<or> match_path [Lit ''api'', Lit ''auth'', Lit ''register''] (req_path req) = None"
    "req_method req \<noteq> POST \<or> match_path [Lit ''api'', Lit ''auth'', Lit ''login''] (req_path req) = None"
    "req_method req \<noteq> POST \<or> match_path [Lit ''api'', Lit ''auth'', Lit ''logout''] (req_path req) = None"
    "req_method req \<noteq> GET \<or> match_path [Lit ''api'', Lit ''user''] (req_path req) = None"
    "req_method req \<noteq> GET \<or> match_path [Lit ''api'', Lit ''roles''] (req_path req) = None"
    "req_method req \<noteq> POST \<or> match_path [Lit ''api'', Lit ''users'', Param, Lit ''roles''] (req_path req) = None"
    "req_method req \<noteq> GET \<or> match_path [Lit ''api'', Lit ''users''] (req_path req) = None"
    unfolding before_middleware_def by simp_all
  have mw: "use_api auth_middleware e req None s = Done (json 401 (Message ''Unauthorized'')) None s"
    using assms(2) by (simp add: use_api_def auth_middleware_def session_of_def)
  show auth: "run_layers setupAuth e req None s = Done (json 401 (Message ''Unauthorized'')) None s"
    unfolding setupAuth_def by (simp add: route_skip [OF skip(1)] route_skip [OF skip(2)]
        route_skip [OF skip(3)] route_skip [OF skip(4)] route_skip [OF skip(5)]
        route_skip [OF skip(6)] route_skip [OF skip(7)] mw)
  show "app e req s = Done (json 401 (Message ''Unauthorized'')) None s"
    using assms(1) auth by (simp add: app_def registerRoutes_def run_layers_append)
qed

theorem middleware_rejects_witness:
  "app example_env (request_of GET [''api'', ''user''] None) two_tenants =
     Done (json 401 (Message ''Not authenticated'')) None two_tenants \<and>
   app example_env (request_of POST [''api'', ''auth'', ''logout''] None) two_tenants =
     Done (json 200 (Message ''Logged out successfully'')) None two_tenants \<and>
   app example_env (request_of GET [''api'', ''objects''] None) two_tenants =
     Done (json 401 (Message ''Unauthorized'')) None two_tenants \<and>
   app example_env (request_of DELETE [''api'', ''objects'', ''1''] None) two_tenants =
     Done (json 401 (Message ''Unauthorized'')) None two_tenants \<and>
   app example_env (request_of GET [''api'', ''objects'', ''1'', ''relations''] None) two_tenants =
     Done (json 401 (Message ''Unauthorized'')) None two_tenants"
proof -
  have n: "deserializeUser two_tenants None = None" by (simp add: deserializeUser_def)
  have a: "app example_env (request_of GET [''api'', ''user''] None) two_tenants =
     Done (json 401 (Message ''Not authenticated'')) None two_tenants"
    using middleware_rejects [of two_tenants "request_of GET [''api'', ''user''] None"
        "''user''" "[]" example_env] n
    by (simp add: request_of_def)
  have l: "app example_env (request_of POST [''api'', ''auth'', ''logout''] None) two_tenants =
     Done (json 200 (Message ''Logged out successfully'')) None two_tenants"
    using middleware_rejects [of two_tenants "request_of POST [''api'', ''auth'', ''logout''] None"
        "''auth''" "[''logout'']" example_env] n
    by (simp add: request_of_def)
  have b: "app example_env (request_of GET [''api'', ''objects''] None) two_tenants =
     Done (json 401 (Message ''Unauthorized'')) None two_tenants"
    using middleware_rejects [of two_tenants "request_of GET [''api'', ''objects''] None"
        "''objects''" "[]" example_env] n
    by (simp add: request_of_def before_middleware_def)
  have c: "app example_env (request_of DELETE [''api'', ''objects'', ''1''] None) two_tenants =
     Done (json 401 (Message ''Unauthorized'')) None two_tenants"
    using middleware_rejects [of two_tenants "request_of DELETE [''api'', ''objects'', ''1''] None"
        "''objects''" "[''1'']" example_env] n
    by (simp add: request_of_def before_middleware_def)
  have d: "app example_env (request_of GET [''api'', ''objects'', ''1'', ''relations''] None) two_tenants =
     Done (json 401 (Message ''Unauthorized'')) None two_tenants"
    using middleware_rejects [of two_tenants
        "request_of GET [''api'', ''objects'', ''1'', ''relations''] None"
        "''objects''" "[''1'', ''relations'']" example_env] n
    by (simp add: request_of_def before_middleware_def)
  from a l b c d show ?thesis by blast
qed

text \<open>
  C6, as stated, fails: without a session, logout is answered with 200, and
  \<open>GET /api/roles\<close>, \<open>GET /api/users\<close> and \<open>POST /api/users/:userId/roles\<close> are
  answered with 403 \<open>Forbidden\<close> by the handlers of \<open>auth.ts\<close>.
\<close>

theorem requests_without_session_counterexample:
  "app example_env (request_of POST [''api'', ''auth'', ''logout''] None) two_tenants =
     Done (json 200 (Message ''Logged out successfully'')) None two_tenants \<and>
   app example_env (request_of GET [''api'', ''roles''] None) two_tenants =
     Done (json 403 (Message ''Forbidden'')) None two_tenants \<and>
   app example_env (request_of GET [''api'', ''users''] None) two_tenants =
     Done (json 403 (Message ''Forbidden'')) None two_tenants \<and>
   app example_env (request_of POST [''api'', ''users'', ''2'', ''roles''] None) two_tenants =
     Done (json 403 (Message ''Forbidden'')) None two_tenants"
  by code_simp


section \<open>The company of an object\<close>

text \<open>
  \<open>POST /api/objects\<close> writes the caller's company and id over whatever the body
  says.
\<close>

lemma post_objects_company:
  assumes "post_objects e req (Some caller) s = Done r sess s'" and "status r = 200"
  shows "\<exists>ob. t_objects s' = t_objects s @ [ob] \<and> o_companyId ob = v_companyId caller \<and>
              o_createdBy ob = Some (v_id caller)"
  using assms
  by (auto simp: post_objects_def insert_object_def json_def Let_def
        split: if_splits sum.splits prod.splits field.splits)


text \<open>
  C1 asks that no request changes the company of a stored object, also not a
  \<open>PUT /api/objects/:id\<close> whose body has the key \<open>companyId\<close>. Alice (user 1, company 1,
  role \<open>admin\<close>) updates her object 1 with the body \<open>{companyId: 2}\<close>: the answer is 200
  and the stored object belongs to company 2 afterwards.
\<close>

theorem update_changes_company:
  "map o_companyId (t_objects two_tenants) = [1] \<and>
   map c_id (t_companies two_tenants) = [1, 2] \<and>
   map v_companyId (case deserializeUser two_tenants (Some 1) of None \<Rightarrow> [] | Some u \<Rightarrow> [u]) = [1] \<and>
   status_of (app example_env (update_request 1 ''1'' (no_body\<lparr>b_companyId := Val 2\<rparr>)) two_tenants)
     = Some 200 \<and>
   map o_companyId
     (t_objects (serve example_env [update_request 1 ''1'' (no_body\<lparr>b_companyId := Val 2\<rparr>)]
        two_tenants)) = [2]"
  by code_simp

section \<open>Listing objects\<close>

text \<open>
  The rows a select returns satisfy the condition the builder holds when it runs, which
  is the condition of the last call of \<open>where\<close>. Without search, type and field filter
  that is the condition on the company.
\<close>

lemma set_ascending: "set (ascending c rows) = set rows"
  by (cases c) simp_all

lemma set_ordered: "set (ordered ord rows) = set rows"
  by (induction ord rows rule: ordered.induct) (simp_all add: set_ascending)

lemma run_select_where:
  assumes "run_select q s = Inr rows" and "q_where q = Some c"
  shows "\<forall>ob \<in> set rows. eval_cond c ob"
  using assms
  by (auto simp: run_select_def Let_def set_ordered split: if_splits option.splits dest: in_set_takeD)

lemma get_objects_unfiltered:
  assumes "qp_search (req_query req) \<in> {None, Some []}"
    and "qp_type (req_query req) \<in> {None, Some [], Some ''_all''}"
    and "qp_fields (req_query req) = FieldsAbsent"
    and "get_objects e req (Some caller) s = Done r sess s'"
    and "payload r = ObjectsBody rows"
  shows "\<forall>ob \<in> set rows. o_companyId ob = v_companyId caller"
proof -
  let ?q = "orderBy (sort_of (req_query req))
              (where_q (EqInt Col_companyId (Some (v_companyId caller))) select_from_objects)"
  from assms have "run_select ?q s = Inr rows"
    by (auto simp: get_objects_def Let_def json_def split: sum.splits)
  moreover have "q_where ?q = Some (EqInt Col_companyId (Some (v_companyId caller)))"
    by (simp add: orderBy_def where_q_def)
  ultimately have "\<forall>ob \<in> set rows. eval_cond (EqInt Col_companyId (Some (v_companyId caller))) ob"
    by (rule run_select_where)
  then show ?thesis by simp
qed


text \<open>
  C2 asks that every object \<open>GET /api/objects\<close> returns belongs to the caller's
  company, for every combination of the query parameters. Bob (user 2, company 2)
  searches for \<open>acme\<close>: the call of \<open>where\<close> for the search replaces the condition on the
  company, and the answer holds alice's object of company 1.
\<close>

theorem search_returns_foreign_object:
  "map v_companyId (case deserializeUser two_tenants (Some 2) of None \<Rightarrow> [] | Some u \<Rightarrow> [u]) = [2] \<and>
   map o_companyId (t_objects two_tenants) = [1] \<and>
   app example_env (search_request 2 ''acme'') two_tenants =
     Done (json 200 (ObjectsBody (t_objects two_tenants))) (Some 2) two_tenants"
  by code_simp

section \<open>Passwords in responses\<close>

text \<open>
  \<open>GET /api/user\<close>, login and registration remove the key \<open>password\<close> from the user
  they send.
\<close>

lemma stripped_responses:
  "passwords_sent (get_user e req usr s) = []"
  "passwords_sent (post_auth_login e req usr s) = []"
  "passwords_sent (post_auth_register e req usr s) = []"
  by (simp_all add: get_user_def post_auth_login_def post_auth_register_def json_def
        without_password_def Let_def
        split: option.splits sum.splits prod.splits list.splits)


text \<open>
  C3 asks that no response carries a password, in particular not the response of
  \<open>GET /api/users\<close>. Alice, who holds the role \<open>admin\<close>, lists the users of her company:
  the answer is 200 and carries her stored password.
\<close>

theorem user_list_sends_password:
  "map u_password (t_users two_tenants) = [''x5a17.5a17'', ''y5a17.5a17''] \<and>
   status_of (app example_env (request_of GET [''api'', ''users''] (Some 1)) two_tenants) = Some 200 \<and>
   passwords_sent (app example_env (request_of GET [''api'', ''users''] (Some 1)) two_tenants)
     = [''x5a17.5a17'']"
  by code_simp

end
